theory Spec2Isabelle
  imports Main "HOL-Library.AList" "HOL-Library.Multiset"
begin

section \<open>Data model\<close>

text \<open>
  The room actor \<^verbatim>\<open>ChatRoom\<close> (durable-objects/ChatRoom.ts) with the types of
  lib/types.ts, lib/auth.ts and lib/php-api.ts.

  Conventions of the embedding.
  \<^item> A \<^verbatim>\<open>WebSocket\<close> is an opaque handle, a natural number.
  \<^item> A JavaScript string is a \<open>string\<close>; one \<open>char\<close> stands for one UTF-16 code unit, so
    the model covers the strings whose code units are below 256. An optional or possibly
    \<^verbatim>\<open>undefined\<close> field is an \<open>option\<close>.
  \<^item> A JavaScript number that is only carried around (timestamps, amounts) is an \<open>int\<close>.
  \<^item> The \<^verbatim>\<open>Map<WebSocket, SessionData>\<close> is an association list in insertion order, which
    is the order a JavaScript \<^verbatim>\<open>Map\<close> iterates in; \<^verbatim>\<open>set\<close> is \<open>AList.update\<close> (an existing
    key keeps its place, a new key goes last) and \<^verbatim>\<open>delete\<close> is \<open>AList.delete\<close>.
  \<^item> Every handler is a function from the actor's state to the new state and the list
    of the effects it issued, in the order the code issues them. A handler runs from its
    first line to its last with no other event in between, \<^verbatim>\<open>await\<close> included.
  \<^item> \<^verbatim>\<open>ws.send\<close> and \<^verbatim>\<open>ws.close\<close> are recorded as issued, and the transport is taken to
    accept them: the exception a dead socket would raise is not modelled, so the
    \<^verbatim>\<open>try\<close> around the send in \<^verbatim>\<open>broadcast\<close> has no counterpart here.
  \<^item> What the platform decides is an input of the handler, the record \<open>World\<close>.
  \<^item> An exception inside a handler is a value: the handler returns \<open>Inl\<close> of it and
    \<^verbatim>\<open>webSocketMessage\<close> takes its \<^verbatim>\<open>catch\<close> branch.
\<close>

type_synonym WebSocket = nat

datatype UserType = Client | Advisor

datatype Status = Online | Offline

record SessionData =
  userId :: string
  userType :: UserType
  userName :: string
  authenticated :: bool

record Env =
  ENVIRONMENT :: string
  JWT_SECRET :: "string option"

text \<open>\<^verbatim>\<open>TokenPayload\<close> of lib/auth.ts, with the claims the room actor reads.\<close>

record TokenPayload =
  sub :: string
  reading_id :: string
  user_type :: UserType
  user_name :: string
  client_id :: string
  advisor_id :: string

text \<open>
  What \<^verbatim>\<open>jose.jwtVerify\<close> hands back before \<^verbatim>\<open>validateToken\<close> has looked at it: the four
  required claims may be absent.
\<close>

record JWTPayload =
  jwt_sub :: "string option"
  jwt_reading_id :: "string option"
  jwt_user_type :: "UserType option"
  jwt_user_name :: "string option"
  jwt_client_id :: string
  jwt_advisor_id :: string

text \<open>\<^verbatim>\<open>ChatMessage\<close> of lib/types.ts (its \<^verbatim>\<open>type\<close> is the constant "message").\<close>

record ChatMessage =
  m_id :: string
  m_content :: string
  m_userId :: string
  m_userType :: UserType
  m_userName :: string
  m_timestamp :: int

text \<open>\<^verbatim>\<open>StoredMessage\<close>: one row of the SQLite table \<^verbatim>\<open>messages\<close>.\<close>

record StoredMessage =
  row_id :: string
  row_user_id :: string
  row_user_type :: string
  row_user_name :: string
  row_content :: string
  row_timestamp :: int

record Participant =
  p_userId :: string
  p_userType :: UserType
  p_userName :: string

record Billing =
  charged :: bool
  duration_minutes :: int
  amount :: int
  advisor_commission :: int

record EndReadingResponse =
  success :: bool
  r_reading_id :: int
  ended_by :: string
  r_reason :: string
  already_ended :: "bool option"
  billing :: "Billing option"
  r_error :: "string option"

record SyncParams =
  s_readingId :: string
  s_clientId :: string
  s_advisorId :: string
  s_userType :: UserType
  s_message :: string
  s_messageId :: string
  s_timestamp :: int

text \<open>The frames the actor sends, one constructor per \<^verbatim>\<open>type\<close>.\<close>

datatype Outbound =
    ErrorMsg string
  | AuthErrorMsg string
  | AuthSuccess string "Participant list"
  | HistoryMsg "StoredMessage list"
  | Pong int
  | MessageMsg ChatMessage
  | TypingMsg string UserType bool
  | PresenceMsg string UserType string Status
  | ChatEnded UserType string string "Billing option" int
  | EndChatSuccess EndReadingResponse

text \<open>The frames the actor receives, after \<^verbatim>\<open>JSON.parse\<close>.\<close>

record AuthData =
  token :: "string option"
  a_userId :: "string option"
  a_userType :: "string option"
  a_userName :: "string option"

datatype Frame =
    Unparseable
  | JsonNull
  | Auth AuthData
  | Message "string option"
  | Typing "bool option"
  | EndChat "string option"
  | Ping
  | UnknownType

datatype Effect =
    Send WebSocket Outbound
  | Close WebSocket nat string
  | SerializeAttachment WebSocket SessionData
  | AcceptWebSocket WebSocket
  | SqlInsert StoredMessage
  | SyncMessage SyncParams
  | EndReadingCall string UserType string
  | SetTimeout nat
  | ConsoleError string
  | ConsoleWarn string

record ChatRoom =
  sessions :: "(WebSocket \<times> SessionData) list"
  roomId :: "string option"
  tokenPayload :: "TokenPayload option"
  messages :: "StoredMessage list"
  env :: Env

text \<open>
  The inputs the platform supplies to one handler run: the clock, the UUID generator, the
  JWT library, the ledger's answer to \<^verbatim>\<open>end-reading.php\<close> (\<open>None\<close> when the call throws or
  rejects), the row order SQLite gives \<^verbatim>\<open>ORDER BY timestamp DESC\<close>, and the server end of
  a new \<^verbatim>\<open>WebSocketPair\<close>.
\<close>

record World =
  now :: int
  randomUUID :: string
  jwtVerify :: "string \<Rightarrow> string \<Rightarrow> JWTPayload option"
  endReading :: "string \<Rightarrow> UserType \<Rightarrow> string \<Rightarrow> EndReadingResponse option"
  orderByTimestampDesc :: "StoredMessage list \<Rightarrow> StoredMessage list"
  newServerSocket :: WebSocket

datatype Exn = SqlConstraintError

section \<open>JavaScript helpers\<close>

text \<open>A string value is truthy when it is present and not empty.\<close>

definition truthy :: "string option \<Rightarrow> bool" where
  "truthy v = (case v of None \<Rightarrow> False | Some s \<Rightarrow> s \<noteq> [])"

text \<open>\<^verbatim>\<open>v || d\<close> on a string; with \<open>d = []\<close> it reads a truthy value.\<close>

definition orElse :: "string option \<Rightarrow> string \<Rightarrow> string" where
  "orElse v d = (case v of None \<Rightarrow> d | Some s \<Rightarrow> if s = [] then d else s)"

text \<open>The white space and line terminators \<^verbatim>\<open>String.prototype.trim\<close> strips, below 256.\<close>

definition isWhiteSpace :: "char \<Rightarrow> bool" where
  "isWhiteSpace c = (c \<in> set [CHR 0x09, CHR 0x0A, CHR 0x0B, CHR 0x0C, CHR 0x0D, CHR 0x20, CHR 0xA0])"

definition trim :: "string \<Rightarrow> string" where
  "trim s = rev (dropWhile isWhiteSpace (rev (dropWhile isWhiteSpace s)))"

text \<open>\<^verbatim>\<open>s.replace(/c/g, r)\<close> for a one-character pattern.\<close>

fun replaceAll :: "char \<Rightarrow> string \<Rightarrow> string \<Rightarrow> string" where
  "replaceAll c r [] = []"
| "replaceAll c r (x # xs) = (if x = c then r @ replaceAll c r xs else x # replaceAll c r xs)"

definition userTypeText :: "UserType \<Rightarrow> string" where
  "userTypeText t = (case t of Client \<Rightarrow> ''client'' | Advisor \<Rightarrow> ''advisor'')"

section \<open>lib/auth.ts\<close>

definition validateToken ::
  "(string \<Rightarrow> string \<Rightarrow> JWTPayload option) \<Rightarrow> string \<Rightarrow> string \<Rightarrow> TokenPayload option" where
  "validateToken verify tok jwtSecret =
     (case verify tok jwtSecret of
        None \<Rightarrow> None
      | Some payload \<Rightarrow>
          (case (jwt_sub payload, jwt_reading_id payload, jwt_user_type payload, jwt_user_name payload) of
             (Some s, Some r, Some t, Some n) \<Rightarrow>
               if s = [] \<or> r = [] \<or> n = [] then None
               else Some \<lparr> sub = s, reading_id = r, user_type = t, user_name = n,
                           client_id = jwt_client_id payload, advisor_id = jwt_advisor_id payload \<rparr>
           | _ \<Rightarrow> None))"

section \<open>durable-objects/ChatRoom.ts\<close>

text \<open>
  The constructor: the session registry is rebuilt from the attachments of the sockets the
  platform still holds; \<^verbatim>\<open>roomId\<close> and \<^verbatim>\<open>tokenPayload\<close> start as \<^verbatim>\<open>null\<close>; the table
  \<^verbatim>\<open>messages\<close> is created only if it does not exist, so the stored rows are kept.
\<close>

definition restoreSessions ::
  "(WebSocket \<times> SessionData option) list \<Rightarrow> (WebSocket \<times> SessionData) list" where
  "restoreSessions sockets =
     fold (\<lambda>(ws, attachment) m. case attachment of None \<Rightarrow> m | Some a \<Rightarrow> AList.update ws a m)
       sockets []"

definition constructor ::
  "Env \<Rightarrow> (WebSocket \<times> SessionData option) list \<Rightarrow> StoredMessage list \<Rightarrow> ChatRoom" where
  "constructor e sockets stored =
     \<lparr> sessions = restoreSessions sockets, roomId = None, tokenPayload = None,
       messages = stored, env = e \<rparr>"

text \<open>
  \<^verbatim>\<open>broadcast\<close>: the loop over the registry, skipping the excluded socket and the sessions
  that are not authenticated.
\<close>

fun broadcastTo :: "(WebSocket \<times> SessionData) list \<Rightarrow> Outbound \<Rightarrow> WebSocket option \<Rightarrow> Effect list" where
  "broadcastTo [] payload exclude = []"
| "broadcastTo ((ws, session) # rest) payload exclude =
     (if Some ws = exclude then broadcastTo rest payload exclude
      else if \<not> authenticated session then broadcastTo rest payload exclude
      else Send ws payload # broadcastTo rest payload exclude)"

definition broadcast :: "ChatRoom \<Rightarrow> Outbound \<Rightarrow> WebSocket option \<Rightarrow> Effect list" where
  "broadcast s payload exclude = broadcastTo (sessions s) payload exclude"

fun participantsOf :: "(WebSocket \<times> SessionData) list \<Rightarrow> Participant list" where
  "participantsOf [] = []"
| "participantsOf ((ws, session) # rest) =
     (if authenticated session
      then \<lparr> p_userId = userId session, p_userType = userType session,
             p_userName = userName session \<rparr> # participantsOf rest
      else participantsOf rest)"

definition getParticipantList :: "ChatRoom \<Rightarrow> Participant list" where
  "getParticipantList s = participantsOf (sessions s)"

text \<open>
  \<^verbatim>\<open>getRecentMessages\<close>: \<^verbatim>\<open>SELECT ... ORDER BY timestamp DESC LIMIT ?\<close>, then \<^verbatim>\<open>reverse\<close>.
  The limit is a row count (both callers pass 100).
\<close>

definition getRecentMessages :: "World \<Rightarrow> ChatRoom \<Rightarrow> nat \<Rightarrow> StoredMessage list" where
  "getRecentMessages W s limit = rev (take limit (orderByTimestampDesc W (messages s)))"

definition sanitizeContent :: "string \<Rightarrow> string" where
  "sanitizeContent content =
     take 1000
       (replaceAll (CHR 0x27) ''&#039;''
         (replaceAll (CHR 0x22) ''&quot;''
           (replaceAll CHR ''>'' ''&gt;''
             (replaceAll CHR ''<'' ''&lt;''
               (replaceAll CHR ''&'' ''&amp;'' content)))))"

text \<open>
  The \<^verbatim>\<open>INSERT\<close> into \<^verbatim>\<open>messages\<close>: \<^verbatim>\<open>id\<close> is the primary key, so a row whose id is already
  stored makes \<^verbatim>\<open>sql.exec\<close> throw; otherwise the row is added after the others.
\<close>

definition sqlInsert :: "StoredMessage list \<Rightarrow> StoredMessage \<Rightarrow> Exn + StoredMessage list" where
  "sqlInsert rows r =
     (if row_id r \<in> set (map row_id rows) then Inl SqlConstraintError else Inr (rows @ [r]))"

definition toRow :: "ChatMessage \<Rightarrow> StoredMessage" where
  "toRow message =
     \<lparr> row_id = m_id message, row_user_id = m_userId message,
       row_user_type = userTypeText (m_userType message), row_user_name = m_userName message,
       row_content = m_content message, row_timestamp = m_timestamp message \<rparr>"

text \<open>
  \<^verbatim>\<open>syncMessageToPhp\<close> up to its first \<^verbatim>\<open>await\<close>: the request to \<^verbatim>\<open>sync-message.php\<close> is
  issued, or a warning is logged. What the request returns is never read by the actor.
\<close>

definition syncMessageToPhp :: "ChatRoom \<Rightarrow> ChatMessage \<Rightarrow> Effect list" where
  "syncMessageToPhp s message =
     (case (tokenPayload s, roomId s) of
        (Some tp, Some rid) \<Rightarrow>
          if rid = [] then [ConsoleWarn ''Cannot sync message: missing token payload or room ID'']
          else [SyncMessage \<lparr> s_readingId = rid, s_clientId = client_id tp,
                  s_advisorId = advisor_id tp, s_userType = m_userType message,
                  s_message = m_content message, s_messageId = m_id message,
                  s_timestamp = m_timestamp message \<rparr>]
      | _ \<Rightarrow> [ConsoleWarn ''Cannot sync message: missing token payload or room ID''])"

text \<open>The object literal \<^verbatim>\<open>message\<close> of \<^verbatim>\<open>handleChatMessage\<close>.\<close>

definition newChatMessage :: "World \<Rightarrow> SessionData \<Rightarrow> string \<Rightarrow> ChatMessage" where
  "newChatMessage W session c =
     \<lparr> m_id = randomUUID W, m_content = sanitizeContent c,
       m_userId = userId session, m_userType = userType session,
       m_userName = userName session, m_timestamp = now W \<rparr>"

definition handleChatMessage ::
  "World \<Rightarrow> ChatRoom \<Rightarrow> WebSocket \<Rightarrow> SessionData \<Rightarrow> string option \<Rightarrow> Exn + (ChatRoom \<times> Effect list)" where
  "handleChatMessage W s ws session content =
     (case content of
        None \<Rightarrow> Inr (s, [])
      | Some c \<Rightarrow>
          if c = [] \<or> trim c = [] then Inr (s, [])
          else
            let message = newChatMessage W session c
            in (case sqlInsert (messages s) (toRow message) of
                  Inl e \<Rightarrow> Inl e
                | Inr rows \<Rightarrow>
                    let s' = s\<lparr> messages := rows \<rparr>
                    in Inr (s', [SqlInsert (toRow message)]
                              @ broadcast s' (MessageMsg message) None
                              @ (if tokenPayload s' \<noteq> None \<and> truthy (roomId s')
                                 then syncMessageToPhp s' message else []))))"

text \<open>Lines 228 to 259 of \<^verbatim>\<open>handleAuth\<close>: what a successful authentication does.\<close>

definition authenticate ::
  "World \<Rightarrow> ChatRoom \<Rightarrow> WebSocket \<Rightarrow> SessionData \<Rightarrow> string \<Rightarrow> UserType \<Rightarrow> string \<Rightarrow> ChatRoom \<times> Effect list" where
  "authenticate W s ws session uid utype uname =
     (let session' = session\<lparr> userId := uid, userType := utype, userName := uname,
                              authenticated := True \<rparr>;
          s' = s\<lparr> sessions := AList.update ws session' (sessions s) \<rparr>
      in (s', [SerializeAttachment ws session',
               Send ws (AuthSuccess uid (getParticipantList s')),
               Send ws (HistoryMsg (getRecentMessages W s' 100))]
              @ broadcast s' (PresenceMsg uid utype uname Online) (Some ws)))"

definition handleAuth ::
  "World \<Rightarrow> ChatRoom \<Rightarrow> WebSocket \<Rightarrow> SessionData \<Rightarrow> AuthData \<Rightarrow> ChatRoom \<times> Effect list" where
  "handleAuth W s ws session data =
     (if truthy (token data) \<and> truthy (JWT_SECRET (env s)) then
        (case validateToken (jwtVerify W) (orElse (token data) []) (orElse (JWT_SECRET (env s)) []) of
           None \<Rightarrow>
             (s, [Send ws (AuthErrorMsg ''Invalid or expired token''),
                  Close ws 4001 ''Unauthorized''])
         | Some payload \<Rightarrow>
             if truthy (roomId s) \<and> Some (reading_id payload) \<noteq> roomId s then
               (s, [Send ws (AuthErrorMsg ''Token not valid for this room''),
                    Close ws 4003 ''Forbidden''])
             else
               authenticate W (s\<lparr> tokenPayload := Some payload \<rparr>) ws session
                 (sub payload) (user_type payload) (user_name payload))
      else if ENVIRONMENT (env s) = ''development'' \<and> \<not> truthy (JWT_SECRET (env s)) then
        authenticate W s ws session
          (orElse (a_userId data) (randomUUID W))
          (if a_userType data = Some ''advisor'' then Advisor else Client)
          (orElse (a_userName data) ''Anonymous'')
      else
        (s, [Send ws (AuthErrorMsg ''Token required''), Close ws 4001 ''Unauthorized'']))"

definition handleEndChat ::
  "World \<Rightarrow> ChatRoom \<Rightarrow> WebSocket \<Rightarrow> SessionData \<Rightarrow> string option \<Rightarrow> ChatRoom \<times> Effect list" where
  "handleEndChat W s ws session reason =
     (case (tokenPayload s, roomId s) of
        (Some tp, Some rid) \<Rightarrow>
          if rid = [] then (s, [Send ws (ErrorMsg ''Cannot end chat: missing session data'')])
          else
            let endedBy = userType session; reason' = orElse reason ''normal''
            in (case endReading W rid endedBy reason' of
                  Some result \<Rightarrow>
                    (s, [EndReadingCall rid endedBy reason']
                        @ broadcast s (ChatEnded endedBy (userName session) reason'
                                         (billing result) (now W)) None
                        @ [Send ws (EndChatSuccess result), SetTimeout 1000])
                | None \<Rightarrow>
                    (s, [EndReadingCall rid endedBy reason',
                         ConsoleError ''Failed to end chat:'',
                         Send ws (ErrorMsg ''Failed to end chat. Please try again.'')]))
      | _ \<Rightarrow> (s, [Send ws (ErrorMsg ''Cannot end chat: missing session data'')]))"

text \<open>
  The callback \<^verbatim>\<open>handleEndChat\<close> hands to \<^verbatim>\<open>setTimeout\<close>: every registered socket is
  closed and the registry is cleared.
\<close>

definition endChatTimeout :: "ChatRoom \<Rightarrow> ChatRoom \<times> Effect list" where
  "endChatTimeout s =
     (s\<lparr> sessions := [] \<rparr>,
      map (\<lambda>(socket, session). Close socket 1000 ''Chat session ended'') (sessions s))"

definition handleTypingIndicator ::
  "ChatRoom \<Rightarrow> WebSocket \<Rightarrow> SessionData \<Rightarrow> bool option \<Rightarrow> ChatRoom \<times> Effect list" where
  "handleTypingIndicator s ws session isTyping =
     (s, broadcast s (TypingMsg (userId session) (userType session)
                        (case isTyping of None \<Rightarrow> False | Some b \<Rightarrow> b)) (Some ws))"

text \<open>The \<^verbatim>\<open>catch\<close> of \<^verbatim>\<open>webSocketMessage\<close>.\<close>

definition invalidMessageFormat :: "ChatRoom \<Rightarrow> WebSocket \<Rightarrow> ChatRoom \<times> Effect list" where
  "invalidMessageFormat s ws =
     (s, [ConsoleError ''Message handling error:'', Send ws (ErrorMsg ''Invalid message format'')])"

definition webSocketMessage :: "World \<Rightarrow> ChatRoom \<Rightarrow> WebSocket \<Rightarrow> Frame \<Rightarrow> ChatRoom \<times> Effect list" where
  "webSocketMessage W s ws frame =
     (if frame = Unparseable then invalidMessageFormat s ws
      else
        (case map_of (sessions s) ws of
           None \<Rightarrow> (s, [Send ws (ErrorMsg ''No session'')])
         | Some session \<Rightarrow>
             (case frame of
                Unparseable \<Rightarrow> invalidMessageFormat s ws
              | JsonNull \<Rightarrow> invalidMessageFormat s ws
              | Auth data \<Rightarrow> handleAuth W s ws session data
              | Message content \<Rightarrow>
                  if \<not> authenticated session then (s, [Send ws (ErrorMsg ''Not authenticated'')])
                  else (case handleChatMessage W s ws session content of
                          Inl e \<Rightarrow> invalidMessageFormat s ws
                        | Inr r \<Rightarrow> r)
              | Typing isTyping \<Rightarrow>
                  if \<not> authenticated session then (s, [])
                  else handleTypingIndicator s ws session isTyping
              | EndChat reason \<Rightarrow>
                  if \<not> authenticated session then (s, [Send ws (ErrorMsg ''Not authenticated'')])
                  else handleEndChat W s ws session reason
              | Ping \<Rightarrow> (s, [Send ws (Pong (now W))])
              | UnknownType \<Rightarrow> (s, [Send ws (ErrorMsg ''Unknown message type'')]))))"

definition webSocketClose :: "ChatRoom \<Rightarrow> WebSocket \<Rightarrow> ChatRoom \<times> Effect list" where
  "webSocketClose s ws =
     (s\<lparr> sessions := AList.delete ws (sessions s) \<rparr>,
      (case map_of (sessions s) ws of
         None \<Rightarrow> []
       | Some session \<Rightarrow>
           if authenticated session
           then broadcast s (PresenceMsg (userId session) (userType session) (userName session)
                               Offline) (Some ws)
           else []))"

definition webSocketError :: "ChatRoom \<Rightarrow> WebSocket \<Rightarrow> ChatRoom \<times> Effect list" where
  "webSocketError s ws =
     (s\<lparr> sessions := AList.delete ws (sessions s) \<rparr>, [ConsoleError ''WebSocket error:''])"

record Request =
  pathname :: string
  room_id :: "string option"
  upgrade :: "string option"

datatype Response =
    SwitchingProtocols
  | HistoryJson "StoredMessage list"
  | ExpectedWebSocket
  | NotFound

definition handleWebSocketUpgrade ::
  "World \<Rightarrow> ChatRoom \<Rightarrow> Request \<Rightarrow> ChatRoom \<times> Response \<times> Effect list" where
  "handleWebSocketUpgrade W s request =
     (if upgrade request \<noteq> Some ''websocket'' then (s, ExpectedWebSocket, [])
      else
        let server = newServerSocket W;
            session = \<lparr> userId = [], userType = Client, userName = ''Anonymous'',
                        authenticated = False \<rparr>
        in (s\<lparr> sessions := AList.update server session (sessions s) \<rparr>, SwitchingProtocols,
            [AcceptWebSocket server, SerializeAttachment server session]))"

definition fetch :: "World \<Rightarrow> ChatRoom \<Rightarrow> Request \<Rightarrow> ChatRoom \<times> Response \<times> Effect list" where
  "fetch W s request =
     (let s' = (if truthy (room_id request) then s\<lparr> roomId := room_id request \<rparr> else s)
      in if pathname request = ''/websocket'' then handleWebSocketUpgrade W s' request
         else if pathname request = ''/history''
         then (s', HistoryJson (getRecentMessages W s' 100), [])
         else (s', NotFound, []))"

section \<open>The actor as a transition system\<close>

text \<open>
  One event is one run of a handler; the actor processes them one at a time. A timeline
  pairs each event with what the platform supplies to it.
\<close>

datatype Event =
    FetchEv Request
  | MessageEv WebSocket Frame
  | CloseEv WebSocket
  | ErrorEv WebSocket
  | TimeoutEv

definition dispatch :: "World \<Rightarrow> ChatRoom \<Rightarrow> Event \<Rightarrow> ChatRoom \<times> Effect list" where
  "dispatch W s ev =
     (case ev of
        FetchEv request \<Rightarrow> (case fetch W s request of (s', response, fx) \<Rightarrow> (s', fx))
      | MessageEv ws frame \<Rightarrow> webSocketMessage W s ws frame
      | CloseEv ws \<Rightarrow> webSocketClose s ws
      | ErrorEv ws \<Rightarrow> webSocketError s ws
      | TimeoutEv \<Rightarrow> endChatTimeout s)"

fun run :: "ChatRoom \<Rightarrow> (World \<times> Event) list \<Rightarrow> ChatRoom \<times> Effect list" where
  "run s [] = (s, [])"
| "run s ((W, ev) # rest) =
     (case dispatch W s ev of
        (s', fx) \<Rightarrow> (case run s' rest of (s'', fx') \<Rightarrow> (s'', fx @ fx')))"

section \<open>Notions of the specification and example rooms\<close>

text \<open>
  Entity escaping as the specification words it: each HTML-significant character is
  replaced by its entity, every other character is kept. It is compared below with the
  five successive replacements of \<^verbatim>\<open>sanitizeContent\<close>.
\<close>

definition escapeHtmlChar :: "char \<Rightarrow> string" where
  "escapeHtmlChar c =
     (if c = CHR ''&'' then ''&amp;''
      else if c = CHR ''<'' then ''&lt;''
      else if c = CHR ''>'' then ''&gt;''
      else if c = CHR 0x22 then ''&quot;''
      else if c = CHR 0x27 then ''&#039;''
      else [c])"

definition entityEscape :: "string \<Rightarrow> string" where
  "entityEscape s = concat (map escapeHtmlChar s)"

text \<open>The room context is bound: the guard of \<^verbatim>\<open>handleEndChat\<close> and of the ledger sync.\<close>

definition contextBound :: "ChatRoom \<Rightarrow> bool" where
  "contextBound s = (tokenPayload s \<noteq> None \<and> truthy (roomId s))"

text \<open>The frames that \<^verbatim>\<open>broadcast\<close> fans out.\<close>

definition isBroadcastFrame :: "Outbound \<Rightarrow> bool" where
  "isBroadcastFrame p =
     (case p of
        MessageMsg m \<Rightarrow> True
      | TypingMsg u t b \<Rightarrow> True
      | PresenceMsg u t n st \<Rightarrow> True
      | ChatEnded t n r b ts \<Rightarrow> True
      | _ \<Rightarrow> False)"

definition productionEnv :: Env where
  "productionEnv = \<lparr> ENVIRONMENT = ''production'', JWT_SECRET = Some ''k'' \<rparr>"

definition developmentEnv :: Env where
  "developmentEnv = \<lparr> ENVIRONMENT = ''development'', JWT_SECRET = None \<rparr>"

definition alice :: SessionData where
  "alice = \<lparr> userId = ''u1'', userType = Client, userName = ''Alice'', authenticated = True \<rparr>"

definition bob :: SessionData where
  "bob = \<lparr> userId = ''u2'', userType = Advisor, userName = ''Bob'', authenticated = True \<rparr>"

definition guest :: SessionData where
  "guest = \<lparr> userId = [], userType = Client, userName = ''Anonymous'', authenticated = False \<rparr>"

definition aliceToken :: TokenPayload where
  "aliceToken = \<lparr> sub = ''u1'', reading_id = ''r1'', user_type = Client, user_name = ''Alice'',
                   client_id = ''c1'', advisor_id = ''a1'' \<rparr>"

text \<open>A room bound to "r1" with Alice and Bob authenticated and one connection that is not.\<close>

definition roomR1 :: ChatRoom where
  "roomR1 = \<lparr> sessions = [(1, alice), (2, bob), (3, guest)], roomId = Some ''r1'',
              tokenPayload = Some aliceToken, messages = [], env = productionEnv \<rparr>"

text \<open>
  A platform whose JWT library accepts the tokens "r1" and "r2" (for Bob, scoped to the
  room of that name) and rejects every other token, and whose ledger is down.
\<close>

definition bobClaims :: "string \<Rightarrow> JWTPayload" where
  "bobClaims r = \<lparr> jwt_sub = Some ''u2'', jwt_reading_id = Some r, jwt_user_type = Some Advisor,
                    jwt_user_name = Some ''Bob'', jwt_client_id = ''c1'', jwt_advisor_id = ''a1'' \<rparr>"

definition world1 :: World where
  "world1 = \<lparr> now = 1000, randomUUID = ''id1'',
              jwtVerify = (\<lambda>tok secret. if tok = ''r1'' \<or> tok = ''r2'' then Some (bobClaims tok) else None),
              endReading = (\<lambda>rid endedBy reason. None),
              orderByTimestampDesc = (\<lambda>rows. rev (sort_key row_timestamp rows)),
              newServerSocket = 4 \<rparr>"

text \<open>
  Every broadcast frame among the effects \<open>fx\<close> goes to a socket that has an
  authenticated entry in the registry of \<open>s\<close>.
\<close>

definition toAuthenticated :: "ChatRoom \<Rightarrow> Effect list \<Rightarrow> bool" where
  "toAuthenticated s fx =
     (\<forall>w p. Send w p \<in> set fx \<and> isBroadcastFrame p \<longrightarrow>
        (\<exists>session. (w, session) \<in> set (sessions s) \<and> authenticated session))"

text \<open>
  The event is an \<^verbatim>\<open>auth\<close> frame that takes the JWT branch of \<^verbatim>\<open>handleAuth\<close> to its end:
  the socket has a session, a token and a secret are there, the token verifies, and its
  \<^verbatim>\<open>reading_id\<close> does not contradict the room id.
\<close>

fun jwtAuthenticates :: "World \<Rightarrow> ChatRoom \<Rightarrow> Event \<Rightarrow> bool" where
  "jwtAuthenticates W s (MessageEv ws (Auth data)) =
     (map_of (sessions s) ws \<noteq> None \<and> truthy (token data) \<and> truthy (JWT_SECRET (env s))
      \<and> (case validateToken (jwtVerify W) (orElse (token data) [])
                  (orElse (JWT_SECRET (env s)) []) of
            None \<Rightarrow> False
          | Some payload \<Rightarrow> \<not> (truthy (roomId s) \<and> Some (reading_id payload) \<noteq> roomId s)))"
| "jwtAuthenticates W s ev = False"

text \<open>No event of the timeline, run from \<open>s\<close>, is a successful JWT authentication.\<close>

fun noJwtAuthentication :: "ChatRoom \<Rightarrow> (World \<times> Event) list \<Rightarrow> bool" where
  "noJwtAuthentication s [] = True"
| "noJwtAuthentication s ((W, ev) # rest) =
     (\<not> jwtAuthenticates W s ev \<and> noJwtAuthentication (fst (dispatch W s ev)) rest)"

text \<open>A development deployment: one connection opened and authenticated without a token.\<close>

definition devWorld :: World where
  "devWorld = \<lparr> now = 5, randomUUID = ''id9'',
                jwtVerify = (\<lambda>tok secret. None),
                endReading = (\<lambda>rid endedBy reason. None),
                orderByTimestampDesc = (\<lambda>rows. rev (sort_key row_timestamp rows)),
                newServerSocket = 7 \<rparr>"

definition devTimeline :: "(World \<times> Event) list" where
  "devTimeline =
     [(devWorld, FetchEv \<lparr> pathname = ''/websocket'', room_id = Some ''r1'',
                           upgrade = Some ''websocket'' \<rparr>),
      (devWorld, MessageEv 7 (Auth \<lparr> token = None, a_userId = Some ''u7'',
                                     a_userType = Some ''advisor'', a_userName = None \<rparr>))]"

definition devRoom :: ChatRoom where
  "devRoom = fst (run (constructor developmentEnv [] []) devTimeline)"

text \<open>A platform like \<open>world1\<close> whose ledger answers.\<close>

definition ledgerAnswer :: EndReadingResponse where
  "ledgerAnswer = \<lparr> success = True, r_reading_id = 1, ended_by = ''client'', r_reason = ''normal'',
                     already_ended = None, billing = None, r_error = None \<rparr>"

definition world2 :: World where
  "world2 = world1\<lparr> endReading := (\<lambda>rid endedBy reason. Some ledgerAnswer) \<rparr>"

text \<open>A log of three rows, written out of timestamp order.\<close>

definition row :: "string \<Rightarrow> int \<Rightarrow> StoredMessage" where
  "row i t = \<lparr> row_id = i, row_user_id = ''u1'', row_user_type = ''client'',
               row_user_name = ''Alice'', row_content = ''hi'', row_timestamp = t \<rparr>"

definition historyRequest :: Request where
  "historyRequest = \<lparr> pathname = ''/history'', room_id = None, upgrade = None \<rparr>"

definition roomWithLog :: ChatRoom where
  "roomWithLog = roomR1\<lparr> messages := [row ''a'' 30, row ''b'' 10, row ''c'' 20] \<rparr>"

text \<open>
  A room bound to "r1" with two open connections, neither authenticated yet, and a
  platform whose JWT library knows Alice's token "A" and Bob's token "B".
\<close>

definition lobby :: ChatRoom where
  "lobby = \<lparr> sessions = [(1, guest), (2, guest)], roomId = Some ''r1'', tokenPayload = None,
             messages = [], env = productionEnv \<rparr>"

definition aliceClaims :: JWTPayload where
  "aliceClaims = \<lparr> jwt_sub = Some ''u1'', jwt_reading_id = Some ''r1'',
                    jwt_user_type = Some Client, jwt_user_name = Some ''Alice'',
                    jwt_client_id = ''c1'', jwt_advisor_id = ''a1'' \<rparr>"

definition world3 :: World where
  "world3 = world1\<lparr> jwtVerify := (\<lambda>tok secret. if tok = ''A'' then Some aliceClaims
                                     else if tok = ''B'' then Some (bobClaims ''r1'') else None) \<rparr>"

definition authWith :: "string \<Rightarrow> Frame" where
  "authWith tok = Auth \<lparr> token = Some tok, a_userId = None, a_userType = None, a_userName = None \<rparr>"

text \<open>
  A restart: the platform still holds the sockets of Alice and Bob with their snapshots.
  Afterwards a third connection is opened and presents a token that does not verify.
\<close>

definition heldSockets :: "(WebSocket \<times> SessionData option) list" where
  "heldSockets = [(1, Some alice), (2, Some bob)]"

definition restartTimeline :: "(World \<times> Event) list" where
  "restartTimeline =
     [(world1, FetchEv \<lparr> pathname = ''/websocket'', room_id = Some ''r1'',
                         upgrade = Some ''websocket'' \<rparr>),
      (world1, MessageEv 4 (authWith ''bad''))]"

definition restartedRoom :: ChatRoom where
  "restartedRoom = fst (run (constructor productionEnv heldSockets []) restartTimeline)"

section \<open>Properties of the actor\<close>

subsection \<open>Content sanitisation\<close>

lemma replaceAll_append: "replaceAll c r (xs @ ys) = replaceAll c r xs @ replaceAll c r ys"
  by (induction xs) auto

lemma replace_chain_char:
  "replaceAll (CHR 0x27) ''&#039;''
     (replaceAll (CHR 0x22) ''&quot;''
       (replaceAll CHR ''>'' ''&gt;''
         (replaceAll CHR ''<'' ''&lt;''
           (replaceAll CHR ''&'' ''&amp;'' [c])))) = escapeHtmlChar c"
  by (simp add: escapeHtmlChar_def)

text \<open>
  The five replacements in the order of the code amount to escaping each character on its
  own: no entity contains a character that a later replacement looks for.
\<close>

lemma replace_chain:
  "replaceAll (CHR 0x27) ''&#039;''
     (replaceAll (CHR 0x22) ''&quot;''
       (replaceAll CHR ''>'' ''&gt;''
         (replaceAll CHR ''<'' ''&lt;''
           (replaceAll CHR ''&'' ''&amp;'' s)))) = entityEscape s"
proof (induction s)
  case Nil
  show ?case by (simp add: entityEscape_def)
next
  case (Cons c s)
  let ?chain = "\<lambda>t. replaceAll (CHR 0x27) ''&#039;''
     (replaceAll (CHR 0x22) ''&quot;''
       (replaceAll CHR ''>'' ''&gt;''
         (replaceAll CHR ''<'' ''&lt;''
           (replaceAll CHR ''&'' ''&amp;'' t))))"
  have "?chain ([c] @ s) = ?chain [c] @ ?chain s"
    by (simp only: replaceAll_append)
  also have "\<dots> = escapeHtmlChar c @ entityEscape s"
    using Cons.IH replace_chain_char [of c] by simp
  finally show ?case by (simp add: entityEscape_def)
qed

lemma sanitizeContent_eq: "sanitizeContent s = take 1000 (entityEscape s)"
  by (simp add: sanitizeContent_def replace_chain)

lemma length_entityEscape: "length s \<le> length (entityEscape s)"
  unfolding entityEscape_def
proof (induction s)
  case Nil
  show ?case by simp
next
  case (Cons c s)
  have "1 \<le> length (escapeHtmlChar c)"
    by (simp add: escapeHtmlChar_def)
  with Cons show ?case by simp
qed

subsection \<open>Broadcast\<close>

lemma Send_in_broadcastTo:
  "Send w q \<in> set (broadcastTo xs p ex) \<longleftrightarrow>
     q = p \<and> Some w \<noteq> ex \<and> (\<exists>session. (w, session) \<in> set xs \<and> authenticated session)"
  by (induction xs p ex rule: broadcastTo.induct) auto

lemma broadcastTo_only_Send: "e \<in> set (broadcastTo xs p ex) \<Longrightarrow> \<exists>w. e = Send w p"
  by (induction xs p ex rule: broadcastTo.induct) (auto split: if_splits)

subsection \<open>An accepted chat message\<close>

lemma accept_message:
  assumes "map_of (sessions s) ws = Some session" and "authenticated session"
    and "c \<noteq> []" and "trim c \<noteq> []"
    and "randomUUID W \<notin> set (map row_id (messages s))"
  shows "webSocketMessage W s ws (Message (Some c)) =
           (s\<lparr> messages := messages s @ [toRow (newChatMessage W session c)] \<rparr>,
            SqlInsert (toRow (newChatMessage W session c))
              # broadcastTo (sessions s) (MessageMsg (newChatMessage W session c)) None
              @ (if contextBound s then syncMessageToPhp s (newChatMessage W session c) else []))"
proof -
  have id: "row_id (toRow (newChatMessage W session c)) = randomUUID W"
    by (simp add: toRow_def newChatMessage_def)
  have ins: "sqlInsert (messages s) (toRow (newChatMessage W session c)) =
               Inr (messages s @ [toRow (newChatMessage W session c)])"
    using assms(5) by (simp add: sqlInsert_def id)
  have sync: "syncMessageToPhp (s\<lparr> messages := rows \<rparr>) m = syncMessageToPhp s m" for rows m
    by (simp add: syncMessageToPhp_def)
  show ?thesis
    using assms(1-4)
    by (simp add: webSocketMessage_def handleChatMessage_def ins broadcast_def sync Let_def
        contextBound_def)
qed

text \<open>
  C3. For every accepted chat message (an authenticated sender, content that is neither
  empty nor white space only, an id the log does not hold yet) the row written to the log
  and the frame broadcast carry the same content, computed once as \<^verbatim>\<open>sanitizeContent\<close> of the
  input: the input with every HTML-significant character replaced by its entity, cut to
  its first 1000 characters. The input \<^verbatim>\<open><script>alert(1)</script>\<close> gives
  \<^verbatim>\<open>&lt;script&gt;alert(1)&lt;/script&gt;\<close>, and an input longer than 1000 characters gives
  content of exactly 1000 characters.
\<close>

theorem accepted_content_is_sanitized:
  assumes "map_of (sessions s) ws = Some session" and "authenticated session"
    and "c \<noteq> []" and "trim c \<noteq> []"
    and "randomUUID W \<notin> set (map row_id (messages s))"
  shows "webSocketMessage W s ws (Message (Some c)) =
           (s\<lparr> messages := messages s @ [toRow (newChatMessage W session c)] \<rparr>,
            SqlInsert (toRow (newChatMessage W session c))
              # broadcastTo (sessions s) (MessageMsg (newChatMessage W session c)) None
              @ (if contextBound s then syncMessageToPhp s (newChatMessage W session c) else []))
         \<and> m_content (newChatMessage W session c) = take 1000 (entityEscape c)
         \<and> row_content (toRow (newChatMessage W session c)) = take 1000 (entityEscape c)
         \<and> length (m_content (newChatMessage W session c)) \<le> 1000
         \<and> (1000 < length c \<longrightarrow> length (m_content (newChatMessage W session c)) = 1000)
         \<and> sanitizeContent ''<script>alert(1)</script>'' = ''&lt;script&gt;alert(1)&lt;/script&gt;''"
proof -
  have content: "m_content (newChatMessage W session c) = take 1000 (entityEscape c)"
    by (simp add: newChatMessage_def sanitizeContent_eq)
  have row: "row_content (toRow (newChatMessage W session c)) = take 1000 (entityEscape c)"
    by (simp add: toRow_def content)
  have long: "length (m_content (newChatMessage W session c)) = 1000" if "1000 < length c"
    using that length_entityEscape [of c] by (simp add: content)
  have example: "sanitizeContent ''<script>alert(1)</script>'' = ''&lt;script&gt;alert(1)&lt;/script&gt;''"
    by (simp add: sanitizeContent_def)
  show ?thesis
    using accept_message [OF assms] content row long example by simp
qed

theorem accepted_content_is_sanitized_witness:
  "map_of (sessions roomR1) 1 = Some alice \<and> authenticated alice
   \<and> trim ''a < b'' \<noteq> [] \<and> randomUUID world1 \<notin> set (map row_id (messages roomR1))
   \<and> m_content (newChatMessage world1 alice ''a < b'') = ''a &lt; b''
   \<and> messages (fst (webSocketMessage world1 roomR1 1 (Message (Some ''a < b'')))) =
       [\<lparr> row_id = ''id1'', row_user_id = ''u1'', row_user_type = ''client'',
          row_user_name = ''Alice'', row_content = ''a &lt; b'', row_timestamp = 1000 \<rparr>]"
proof -
  have h1: "map_of (sessions roomR1) 1 = Some alice" by (simp add: roomR1_def)
  have h2: "authenticated alice" by (simp add: alice_def)
  have h3: "''a < b'' \<noteq> []" by simp
  have h4: "trim ''a < b'' \<noteq> []" by (simp add: trim_def isWhiteSpace_def)
  have h5: "randomUUID world1 \<notin> set (map row_id (messages roomR1))"
    by (simp add: roomR1_def)
  have e: "take 1000 (entityEscape ''a < b'') = ''a &lt; b''"
    by (simp add: entityEscape_def escapeHtmlChar_def)
  show ?thesis
    using h1 h2 h4 h5 accepted_content_is_sanitized [OF h1 h2 h3 h4 h5]
    by (simp add: e roomR1_def toRow_def newChatMessage_def world1_def alice_def userTypeText_def)
qed

lemma SqlInsert_notin_broadcastTo: "SqlInsert r \<notin> set (broadcastTo xs p ex)"
  using broadcastTo_only_Send [of "SqlInsert r" xs p ex] by auto

lemma SqlInsert_notin_sync: "SqlInsert r \<notin> set (syncMessageToPhp s m)"
  by (simp add: syncMessageToPhp_def split: option.splits)

text \<open>
  C7. For every chat message accepted from an authenticated session (content neither
  empty nor white space only, an id the log does not hold yet) the log grows by exactly one
  row, the \<^verbatim>\<open>INSERT\<close> is the first effect of the handler, and the sends of the broadcast and
  the ledger sync request are all issued after it; no second \<^verbatim>\<open>INSERT\<close> follows.
\<close>

theorem one_log_entry_before_broadcast_and_sync:
  assumes "map_of (sessions s) ws = Some session" and "authenticated session"
    and "c \<noteq> []" and "trim c \<noteq> []"
    and "randomUUID W \<notin> set (map row_id (messages s))"
  shows "\<exists>row later.
           webSocketMessage W s ws (Message (Some c)) =
             (s\<lparr> messages := messages s @ [row] \<rparr>, SqlInsert row # later)
           \<and> row = toRow (newChatMessage W session c)
           \<and> later = broadcast s (MessageMsg (newChatMessage W session c)) None
                      @ (if contextBound s then syncMessageToPhp s (newChatMessage W session c)
                         else [])
           \<and> (\<forall>r. SqlInsert r \<notin> set later)"
proof -
  let ?m = "newChatMessage W session c"
  let ?later = "broadcast s (MessageMsg ?m) None
                @ (if contextBound s then syncMessageToPhp s ?m else [])"
  have run: "webSocketMessage W s ws (Message (Some c)) =
               (s\<lparr> messages := messages s @ [toRow ?m] \<rparr>, SqlInsert (toRow ?m) # ?later)"
    using accept_message [OF assms] by (simp add: broadcast_def)
  have "SqlInsert r \<notin> set ?later" for r
    by (simp add: broadcast_def SqlInsert_notin_broadcastTo SqlInsert_notin_sync)
  with run show ?thesis by blast
qed

theorem one_log_entry_before_broadcast_and_sync_witness:
  "map_of (sessions roomR1) 1 = Some alice \<and> authenticated alice
   \<and> trim ''hi'' \<noteq> [] \<and> randomUUID world1 \<notin> set (map row_id (messages roomR1))
   \<and> (\<exists>row later.
         webSocketMessage world1 roomR1 1 (Message (Some ''hi'')) =
           (roomR1\<lparr> messages := [row] \<rparr>, SqlInsert row # later)
         \<and> later =
             [Send 1 (MessageMsg (newChatMessage world1 alice ''hi'')),
              Send 2 (MessageMsg (newChatMessage world1 alice ''hi'')),
              SyncMessage \<lparr> s_readingId = ''r1'', s_clientId = ''c1'', s_advisorId = ''a1'',
                s_userType = Client, s_message = ''hi'', s_messageId = ''id1'',
                s_timestamp = 1000 \<rparr>])"
proof -
  have h1: "map_of (sessions roomR1) 1 = Some alice" by (simp add: roomR1_def)
  have h2: "authenticated alice" by (simp add: alice_def)
  have h3: "''hi'' \<noteq> []" by simp
  have h4: "trim ''hi'' \<noteq> []" by (simp add: trim_def isWhiteSpace_def)
  have h5: "randomUUID world1 \<notin> set (map row_id (messages roomR1))"
    by (simp add: roomR1_def)
  have b: "broadcast roomR1 p None = [Send 1 p, Send 2 p]" for p
    by (simp add: broadcast_def roomR1_def alice_def bob_def guest_def)
  have m: "newChatMessage world1 alice ''hi'' =
             \<lparr> m_id = ''id1'', m_content = ''hi'', m_userId = ''u1'', m_userType = Client,
               m_userName = ''Alice'', m_timestamp = 1000 \<rparr>"
    by (simp add: newChatMessage_def world1_def alice_def sanitizeContent_def)
  have y: "syncMessageToPhp roomR1 (newChatMessage world1 alice ''hi'') =
             [SyncMessage \<lparr> s_readingId = ''r1'', s_clientId = ''c1'', s_advisorId = ''a1'',
                s_userType = Client, s_message = ''hi'', s_messageId = ''id1'',
                s_timestamp = 1000 \<rparr>]"
    by (simp add: m syncMessageToPhp_def roomR1_def aliceToken_def)
  have cb: "contextBound roomR1"
    by (simp add: contextBound_def roomR1_def truthy_def)
  have ms: "messages roomR1 = []" by (simp add: roomR1_def)
  show ?thesis
    using h1 h2 h4 h5 one_log_entry_before_broadcast_and_sync [OF h1 h2 h3 h4 h5]
    by (simp add: b y cb ms)
qed

text \<open>
  C2. A chat message accepted from an authenticated sender is sent to every session of
  the registry that is authenticated, the sender's own connection included. A typing
  event from an authenticated sender is sent to every authenticated session on another
  connection, and nothing at all is sent to the sender's connection.
\<close>

theorem message_to_all_typing_to_others:
  assumes "map_of (sessions s) ws = Some session" and "authenticated session"
  shows "(c \<noteq> [] \<and> trim c \<noteq> [] \<and> randomUUID W \<notin> set (map row_id (messages s)) \<longrightarrow>
            (\<forall>w session'. map_of (sessions s) w = Some session' \<and> authenticated session' \<longrightarrow>
               Send w (MessageMsg (newChatMessage W session c))
                 \<in> set (snd (webSocketMessage W s ws (Message (Some c)))))
            \<and> Send ws (MessageMsg (newChatMessage W session c))
                 \<in> set (snd (webSocketMessage W s ws (Message (Some c)))))
         \<and> fst (webSocketMessage W s ws (Typing b)) = s
         \<and> (\<forall>w session'. map_of (sessions s) w = Some session' \<and> authenticated session' \<and> w \<noteq> ws \<longrightarrow>
               Send w (TypingMsg (userId session) (userType session)
                         (case b of None \<Rightarrow> False | Some v \<Rightarrow> v))
                 \<in> set (snd (webSocketMessage W s ws (Typing b))))
         \<and> (\<forall>p. Send ws p \<notin> set (snd (webSocketMessage W s ws (Typing b))))"
proof -
  let ?m = "newChatMessage W session c"
  let ?t = "TypingMsg (userId session) (userType session) (case b of None \<Rightarrow> False | Some v \<Rightarrow> v)"
  have typing: "webSocketMessage W s ws (Typing b) = (s, broadcastTo (sessions s) ?t (Some ws))"
    using assms by (simp add: webSocketMessage_def handleTypingIndicator_def broadcast_def)
  have others: "Send w ?t \<in> set (snd (webSocketMessage W s ws (Typing b)))"
    if "map_of (sessions s) w = Some session'" and "authenticated session'" and "w \<noteq> ws"
    for w session'
    using that map_of_SomeD [OF that(1)] by (auto simp: typing Send_in_broadcastTo)
  have self: "Send ws p \<notin> set (snd (webSocketMessage W s ws (Typing b)))" for p
    by (simp add: typing Send_in_broadcastTo)
  have msg: "Send w (MessageMsg ?m) \<in> set (snd (webSocketMessage W s ws (Message (Some c))))"
    if acc: "c \<noteq> []" "trim c \<noteq> []" "randomUUID W \<notin> set (map row_id (messages s))"
      and w: "map_of (sessions s) w = Some session'" "authenticated session'"
    for w session'
    using map_of_SomeD [OF w(1)] w(2)
    by (auto simp: accept_message [OF assms acc] Send_in_broadcastTo)
  from msg [OF _ _ _ assms] msg others self typing show ?thesis
    by (simp del: split_paired_All)
qed
theorem message_to_all_typing_to_others_witness:
  "map_of (sessions roomR1) 1 = Some alice \<and> authenticated alice
   \<and> map_of (sessions roomR1) 2 = Some bob \<and> authenticated bob
   \<and> trim ''hi'' \<noteq> [] \<and> randomUUID world1 \<notin> set (map row_id (messages roomR1))
   \<and> Send 1 (MessageMsg (newChatMessage world1 alice ''hi''))
        \<in> set (snd (webSocketMessage world1 roomR1 1 (Message (Some ''hi''))))
   \<and> Send 2 (MessageMsg (newChatMessage world1 alice ''hi''))
        \<in> set (snd (webSocketMessage world1 roomR1 1 (Message (Some ''hi''))))
   \<and> Send 2 (TypingMsg ''u1'' Client True)
        \<in> set (snd (webSocketMessage world1 roomR1 1 (Typing (Some True))))
   \<and> Send 1 (TypingMsg ''u1'' Client True)
        \<notin> set (snd (webSocketMessage world1 roomR1 1 (Typing (Some True))))"
proof -
  have h1: "map_of (sessions roomR1) 1 = Some alice" by (simp add: roomR1_def)
  have h2: "authenticated alice" by (simp add: alice_def)
  have b1: "map_of (sessions roomR1) 2 = Some bob" by (simp add: roomR1_def)
  have b2: "authenticated bob" by (simp add: bob_def)
  have h3: "''hi'' \<noteq> []" by simp
  have h4: "trim ''hi'' \<noteq> []" by (simp add: trim_def isWhiteSpace_def)
  have h5: "randomUUID world1 \<notin> set (map row_id (messages roomR1))"
    by (simp add: roomR1_def)
  have ne: "(2::nat) \<noteq> 1" by simp
  have id: "userId alice = ''u1''" "userType alice = Client"
    by (simp_all add: alice_def)
  note T = message_to_all_typing_to_others [OF h1 h2, of "''hi''" world1 "Some True"]
  have m1: "Send 1 (MessageMsg (newChatMessage world1 alice ''hi''))
              \<in> set (snd (webSocketMessage world1 roomR1 1 (Message (Some ''hi''))))"
    using T h3 h4 h5 by blast
  have m2: "Send 2 (MessageMsg (newChatMessage world1 alice ''hi''))
              \<in> set (snd (webSocketMessage world1 roomR1 1 (Message (Some ''hi''))))"
    using T h3 h4 h5 b1 b2 by blast
  have t2: "Send 2 (TypingMsg ''u1'' Client True)
              \<in> set (snd (webSocketMessage world1 roomR1 1 (Typing (Some True))))"
    using T b1 b2 ne by (simp add: id)
  have t1: "Send 1 (TypingMsg ''u1'' Client True)
              \<notin> set (snd (webSocketMessage world1 roomR1 1 (Typing (Some True))))"
    using T by blast
  show ?thesis
    using h1 h2 b1 b2 h4 h5 m1 m2 t2 t1 by blast
qed

subsection \<open>Who a broadcast frame is sent to\<close>

lemma in_update_other:
  "(w, v) \<in> set (AList.update k v' al) \<Longrightarrow> w \<noteq> k \<Longrightarrow> (w, v) \<in> set al"
  by (induction al) (auto split: if_splits)

lemma in_update_same: "(k, v) \<in> set (AList.update k v al)"
  by (induction al) auto

lemma other_in_update:
  "(w, v) \<in> set al \<Longrightarrow> w \<noteq> k \<Longrightarrow> (w, v) \<in> set (AList.update k v' al)"
  by (induction al) auto

lemma toAuthenticated_broadcast: "toAuthenticated s (broadcast s p ex)"
  by (auto simp: toAuthenticated_def broadcast_def Send_in_broadcastTo)

lemma toAuthenticated_append:
  "toAuthenticated s (fx @ fx') \<longleftrightarrow> toAuthenticated s fx \<and> toAuthenticated s fx'"
  by (auto simp: toAuthenticated_def)

lemma toAuthenticated_Cons_other:
  "\<forall>w p. e \<noteq> Send w p \<Longrightarrow> toAuthenticated s (e # fx) \<longleftrightarrow> toAuthenticated s fx"
  by (auto simp: toAuthenticated_def)

lemma toAuthenticated_Cons_direct:
  "\<not> isBroadcastFrame p \<Longrightarrow> toAuthenticated s (Send w p # fx) \<longleftrightarrow> toAuthenticated s fx"
  by (auto simp: toAuthenticated_def)

lemma toAuthenticated_Nil: "toAuthenticated s []"
  by (simp add: toAuthenticated_def)

lemma toAuthenticated_sync: "toAuthenticated s (syncMessageToPhp s' m)"
  by (auto simp: toAuthenticated_def syncMessageToPhp_def split: option.splits if_splits)

lemma authenticate_toAuthenticated:
  "toAuthenticated s (snd (authenticate W s0 ws session uid utype uname))"
  if "sessions s0 = sessions s"
proof -
  have "\<exists>x. (w, x) \<in> set (sessions s) \<and> authenticated x"
    if "Send w p \<in> set (broadcastTo (AList.update ws v (sessions s)) q (Some ws))" for w p v q
  proof -
    from that obtain x where "w \<noteq> ws" "(w, x) \<in> set (AList.update ws v (sessions s))"
      "authenticated x"
      by (auto simp: Send_in_broadcastTo)
    then show ?thesis using in_update_other by fast
  qed
  then show ?thesis
    using that
    by (auto simp: authenticate_def Let_def toAuthenticated_def broadcast_def isBroadcastFrame_def)
qed

lemma handleAuth_toAuthenticated: "toAuthenticated s (snd (handleAuth W s ws session data))"
  by (simp add: handleAuth_def authenticate_toAuthenticated toAuthenticated_Cons_direct
      toAuthenticated_Cons_other toAuthenticated_Nil isBroadcastFrame_def
      split: option.splits)

lemma handleChatMessage_toAuthenticated:
  "handleChatMessage W s ws session content = Inr (s', fx) \<Longrightarrow> toAuthenticated s fx"
  by (auto simp: handleChatMessage_def Let_def toAuthenticated_Nil toAuthenticated_append
      toAuthenticated_Cons_other toAuthenticated_sync broadcast_def
      toAuthenticated_broadcast [unfolded broadcast_def]
      split: option.splits if_splits sum.splits)

lemma handleEndChat_toAuthenticated:
  "toAuthenticated s (snd (handleEndChat W s ws session reason))"
  by (simp add: handleEndChat_def Let_def toAuthenticated_Nil toAuthenticated_append
      toAuthenticated_Cons_other toAuthenticated_Cons_direct toAuthenticated_broadcast
      isBroadcastFrame_def split: option.splits)

lemma webSocketMessage_toAuthenticated:
  "toAuthenticated s (snd (webSocketMessage W s ws frame))"
proof (cases "map_of (sessions s) ws")
  case None
  then show ?thesis
    by (simp add: webSocketMessage_def invalidMessageFormat_def toAuthenticated_Cons_direct
        toAuthenticated_Cons_other toAuthenticated_Nil isBroadcastFrame_def)
next
  case (Some session)
  have catch: "toAuthenticated s (snd (invalidMessageFormat s ws))"
    by (simp add: invalidMessageFormat_def toAuthenticated_Cons_direct
        toAuthenticated_Cons_other toAuthenticated_Nil isBroadcastFrame_def)
  show ?thesis
  proof (cases frame)
    case (Message content)
    then show ?thesis
      using Some catch handleChatMessage_toAuthenticated [of W s ws session content]
      by (auto simp: webSocketMessage_def toAuthenticated_Cons_direct toAuthenticated_Nil
          isBroadcastFrame_def split: sum.splits)
  next
    case (Auth data)
    then show ?thesis
      using Some by (simp add: webSocketMessage_def handleAuth_toAuthenticated)
  next
    case (EndChat reason)
    then show ?thesis
      using Some
      by (simp add: webSocketMessage_def handleEndChat_toAuthenticated
          toAuthenticated_Cons_direct toAuthenticated_Nil isBroadcastFrame_def)
  next
    case (Typing isTyping)
    then show ?thesis
      using Some
      by (simp add: webSocketMessage_def handleTypingIndicator_def toAuthenticated_broadcast
          toAuthenticated_Nil)
  qed (use Some catch in \<open>simp_all add: webSocketMessage_def toAuthenticated_Cons_direct
          toAuthenticated_Nil isBroadcastFrame_def\<close>)
qed

lemma dispatch_toAuthenticated: "toAuthenticated s (snd (dispatch W s ev))"
proof (cases ev)
  case (FetchEv request)
  then show ?thesis
    by (simp add: dispatch_def fetch_def handleWebSocketUpgrade_def Let_def toAuthenticated_Nil
        toAuthenticated_Cons_other split: prod.splits if_splits)
next
  case (MessageEv ws frame)
  then show ?thesis by (simp add: dispatch_def webSocketMessage_toAuthenticated)
next
  case (CloseEv ws)
  then show ?thesis
    by (simp add: dispatch_def webSocketClose_def toAuthenticated_Nil toAuthenticated_broadcast
        split: option.splits)
next
  case (ErrorEv ws)
  then show ?thesis
    by (simp add: dispatch_def webSocketError_def toAuthenticated_Nil toAuthenticated_Cons_other)
next
  case TimeoutEv
  then show ?thesis
    by (auto simp: dispatch_def endChatTimeout_def toAuthenticated_def)
qed

subsection \<open>The registry is a map\<close>

text \<open>
  A socket has at most one entry in the registry: this holds after the constructor and
  every handler keeps it, so looking a socket up and finding its entry are the same.
\<close>

lemma restoreSessions_distinct_aux:
  "distinct (map fst m) \<Longrightarrow>
   distinct (map fst (fold (\<lambda>(ws, attachment) m. case attachment of None \<Rightarrow> m
                                | Some a \<Rightarrow> AList.update ws a m) sockets m))"
  by (induction sockets arbitrary: m) (auto simp: distinct_update split: option.splits)

lemma constructor_distinct: "distinct (map fst (sessions (constructor e sockets stored)))"
  using restoreSessions_distinct_aux [of "[]" sockets]
  by (simp add: constructor_def restoreSessions_def)

lemma authenticate_sessions:
  "sessions (fst (authenticate W s ws session uid utype uname)) =
     AList.update ws (session\<lparr> userId := uid, userType := utype, userName := uname,
                               authenticated := True \<rparr>) (sessions s)"
  by (simp add: authenticate_def Let_def)

lemma handleAuth_distinct:
  "distinct (map fst (sessions s)) \<Longrightarrow>
   distinct (map fst (sessions (fst (handleAuth W s ws session data))))"
  by (simp add: handleAuth_def authenticate_sessions distinct_update split: option.splits)

lemma handleChatMessage_sessions:
  "handleChatMessage W s ws session content = Inr (s', fx) \<Longrightarrow> sessions s' = sessions s"
  by (auto simp: handleChatMessage_def Let_def split: option.splits if_splits sum.splits)

lemma handleEndChat_state: "fst (handleEndChat W s ws session reason) = s"
  by (simp add: handleEndChat_def Let_def split: option.splits)

lemma webSocketMessage_distinct:
  assumes "distinct (map fst (sessions s))"
  shows "distinct (map fst (sessions (fst (webSocketMessage W s ws frame))))"
proof (cases "map_of (sessions s) ws")
  case None
  with assms show ?thesis
    by (simp add: webSocketMessage_def invalidMessageFormat_def)
next
  case (Some session)
  show ?thesis
  proof (cases frame)
    case (Message content)
    show ?thesis
    proof (cases "handleChatMessage W s ws session content")
      case (Inl e)
      with Message Some assms show ?thesis
        by (simp add: webSocketMessage_def invalidMessageFormat_def)
    next
      case (Inr r)
      obtain s' fx where r: "r = (s', fx)" by (cases r)
      from Inr r have "sessions s' = sessions s"
        using handleChatMessage_sessions by simp
      with Message Some assms Inr r show ?thesis
        by (simp add: webSocketMessage_def)
    qed
  next
    case (Auth data)
    then show ?thesis
      using Some assms by (simp add: webSocketMessage_def handleAuth_distinct)
  next
    case (EndChat reason)
    then show ?thesis
      using Some assms by (simp add: webSocketMessage_def handleEndChat_state)
  qed (use Some assms in \<open>simp_all add: webSocketMessage_def invalidMessageFormat_def
          handleTypingIndicator_def\<close>)
qed

lemma dispatch_distinct:
  assumes "distinct (map fst (sessions s))"
  shows "distinct (map fst (sessions (fst (dispatch W s ev))))"
proof (cases ev)
  case (FetchEv request)
  with assms show ?thesis
    by (simp add: dispatch_def fetch_def handleWebSocketUpgrade_def Let_def distinct_update
        split: prod.splits)
next
  case (MessageEv ws frame)
  with assms show ?thesis by (simp add: dispatch_def webSocketMessage_distinct)
next
  case (CloseEv ws)
  with assms show ?thesis by (simp add: dispatch_def webSocketClose_def distinct_delete)
next
  case (ErrorEv ws)
  with assms show ?thesis by (simp add: dispatch_def webSocketError_def distinct_delete)
next
  case TimeoutEv
  then show ?thesis by (simp add: dispatch_def endChatTimeout_def)
qed

lemma run_distinct:
  "distinct (map fst (sessions s)) \<Longrightarrow> distinct (map fst (sessions (fst (run s evs))))"
proof (induction evs arbitrary: s)
  case Nil
  then show ?case by simp
next
  case (Cons x evs)
  obtain W ev where x: "x = (W, ev)" by (cases x)
  obtain s' fx where d: "dispatch W s ev = (s', fx)" by (cases "dispatch W s ev")
  have "distinct (map fst (sessions s'))"
    using dispatch_distinct [OF Cons.prems, of W ev] d by simp
  from Cons.IH [OF this] show ?case
    by (cases "run s' evs") (simp add: x d)
qed

text \<open>
  C1. For a session whose \<^verbatim>\<open>authenticated\<close> flag is false, a \<^verbatim>\<open>message\<close>, \<^verbatim>\<open>typing\<close> or
  \<^verbatim>\<open>end_chat\<close> frame leaves the actor's state (the log included) as it was and issues at
  most one effect, the error reply to that same connection: nothing is broadcast and
  nothing is written. And whatever event the actor handles, none of the frames that
  \<^verbatim>\<open>broadcast\<close> fans out (message, typing, presence, chat_ended) is sent to that session.
\<close>

theorem unauthenticated_session_is_gated:
  assumes "distinct (map fst (sessions s))"
    and "map_of (sessions s) ws = Some session" and "\<not> authenticated session"
  shows "webSocketMessage W s ws (Message c) = (s, [Send ws (ErrorMsg ''Not authenticated'')])
         \<and> webSocketMessage W s ws (Typing b) = (s, [])
         \<and> webSocketMessage W s ws (EndChat r) = (s, [Send ws (ErrorMsg ''Not authenticated'')])
         \<and> (\<forall>W' ev p. isBroadcastFrame p \<longrightarrow> Send ws p \<notin> set (snd (dispatch W' s ev)))"
proof -
  have gate: "webSocketMessage W s ws (Message c) = (s, [Send ws (ErrorMsg ''Not authenticated'')])"
    "webSocketMessage W s ws (Typing b) = (s, [])"
    "webSocketMessage W s ws (EndChat r) = (s, [Send ws (ErrorMsg ''Not authenticated'')])"
    using assms(2,3) by (simp_all add: webSocketMessage_def)
  have "Send ws p \<notin> set (snd (dispatch W' s ev))" if p: "isBroadcastFrame p" for W' ev p
  proof
    assume "Send ws p \<in> set (snd (dispatch W' s ev))"
    with p dispatch_toAuthenticated [of s W' ev]
    obtain x where x: "(ws, x) \<in> set (sessions s)" "authenticated x"
      unfolding toAuthenticated_def by blast
    from x(1) assms(1) have "map_of (sessions s) ws = Some x" by simp
    with assms(2,3) x(2) show False by simp
  qed
  with gate show ?thesis by blast
qed

theorem unauthenticated_session_is_gated_witness:
  "distinct (map fst (sessions roomR1)) \<and> map_of (sessions roomR1) 3 = Some guest
   \<and> \<not> authenticated guest
   \<and> webSocketMessage world1 roomR1 3 (Message (Some ''hi'')) =
       (roomR1, [Send 3 (ErrorMsg ''Not authenticated'')])
   \<and> webSocketMessage world1 roomR1 3 (Typing (Some True)) = (roomR1, [])
   \<and> webSocketMessage world1 roomR1 3 (EndChat None) =
       (roomR1, [Send 3 (ErrorMsg ''Not authenticated'')])
   \<and> Send 3 (MessageMsg (newChatMessage world1 alice ''hi''))
       \<notin> set (snd (dispatch world1 roomR1 (MessageEv 1 (Message (Some ''hi'')))))
   \<and> snd (dispatch world1 roomR1 (MessageEv 1 (Typing (Some True)))) =
       [Send 2 (TypingMsg ''u1'' Client True)]"
proof -
  have h1: "distinct (map fst (sessions roomR1))" by (simp add: roomR1_def)
  have h2: "map_of (sessions roomR1) 3 = Some guest" by (simp add: roomR1_def)
  have h3: "\<not> authenticated guest" by (simp add: guest_def)
  have b: "isBroadcastFrame (MessageMsg (newChatMessage world1 alice ''hi''))"
    by (simp add: isBroadcastFrame_def)
  have t: "snd (dispatch world1 roomR1 (MessageEv 1 (Typing (Some True)))) =
             [Send 2 (TypingMsg ''u1'' Client True)]"
    by (simp add: dispatch_def webSocketMessage_def handleTypingIndicator_def broadcast_def
        roomR1_def alice_def bob_def guest_def)
  show ?thesis
    using h1 h2 h3 b t
      unauthenticated_session_is_gated [OF h1 h2 h3, of world1 "Some ''hi''" "Some True" None]
    by simp
qed

subsection \<open>Who sets the token payload\<close>

lemma authenticate_tokenPayload:
  "tokenPayload (fst (authenticate W s ws session uid utype uname)) = tokenPayload s"
  by (simp add: authenticate_def Let_def)

lemma handleChatMessage_tokenPayload:
  "handleChatMessage W s ws session content = Inr (s', fx) \<Longrightarrow> tokenPayload s' = tokenPayload s"
  by (auto simp: handleChatMessage_def Let_def split: option.splits if_splits sum.splits)

lemma webSocketMessage_tokenPayload:
  assumes "\<not> jwtAuthenticates W s (MessageEv ws frame)"
  shows "tokenPayload (fst (webSocketMessage W s ws frame)) = tokenPayload s"
proof (cases "map_of (sessions s) ws")
  case None
  then show ?thesis
    by (simp add: webSocketMessage_def invalidMessageFormat_def)
next
  case (Some session)
  show ?thesis
  proof (cases frame)
    case (Message content)
    show ?thesis
    proof (cases "handleChatMessage W s ws session content")
      case (Inl e)
      with Message Some show ?thesis
        by (simp add: webSocketMessage_def invalidMessageFormat_def)
    next
      case (Inr r)
      obtain s' fx where r: "r = (s', fx)" by (cases r)
      from Inr r have "tokenPayload s' = tokenPayload s"
        using handleChatMessage_tokenPayload by simp
      with Message Some Inr r show ?thesis
        by (simp add: webSocketMessage_def)
    qed
  next
    case (Auth data)
    with assms Some show ?thesis
      by (auto simp: webSocketMessage_def handleAuth_def authenticate_tokenPayload
          split: option.splits)
  next
    case (EndChat reason)
    with Some show ?thesis
      by (simp add: webSocketMessage_def handleEndChat_state)
  qed (use Some in \<open>simp_all add: webSocketMessage_def invalidMessageFormat_def
          handleTypingIndicator_def\<close>)
qed

lemma dispatch_tokenPayload:
  assumes "\<not> jwtAuthenticates W s ev"
  shows "tokenPayload (fst (dispatch W s ev)) = tokenPayload s"
proof (cases ev)
  case (FetchEv request)
  then show ?thesis
    by (simp add: dispatch_def fetch_def handleWebSocketUpgrade_def Let_def split: prod.splits)
next
  case (MessageEv ws frame)
  with assms show ?thesis by (simp add: dispatch_def webSocketMessage_tokenPayload)
qed (simp_all add: dispatch_def webSocketClose_def webSocketError_def endChatTimeout_def)

lemma run_tokenPayload:
  "noJwtAuthentication s evs \<Longrightarrow> tokenPayload (fst (run s evs)) = tokenPayload s"
proof (induction evs arbitrary: s)
  case Nil
  then show ?case by simp
next
  case (Cons x evs)
  obtain W ev where x: "x = (W, ev)" by (cases x)
  obtain s' fx where d: "dispatch W s ev = (s', fx)" by (cases "dispatch W s ev")
  from Cons.prems have no: "\<not> jwtAuthenticates W s ev" "noJwtAuthentication s' evs"
    by (simp_all add: x d)
  have "tokenPayload s' = tokenPayload s"
    using dispatch_tokenPayload [OF no(1)] d by simp
  with Cons.IH [OF no(2)] show ?case
    by (cases "run s' evs") (simp add: x d)
qed

lemma endChat_unbound:
  assumes "map_of (sessions s) ws = Some session" and "authenticated session"
    and "\<not> contextBound s"
  shows "webSocketMessage W s ws (EndChat r) =
           (s, [Send ws (ErrorMsg ''Cannot end chat: missing session data'')])"
  using assms
  by (auto simp: webSocketMessage_def handleEndChat_def contextBound_def truthy_def
      split: option.splits)

text \<open>
  C4. When the room context is not bound (no token payload stored, or no room id), an
  \<^verbatim>\<open>end_chat\<close> frame leaves the state as it was and its only effect is one error frame to the
  initiator: no ledger call, no broadcast, no close. For an initiator that is
  authenticated, as after a development-mode authentication, the error is "Cannot end
  chat: missing session data". The token payload is stored by a successful JWT
  authentication and by no other event.
\<close>

theorem end_chat_without_bound_context:
  assumes "\<not> contextBound s"
  shows "(\<exists>msg. webSocketMessage W s ws (EndChat r) = (s, [Send ws (ErrorMsg msg)]))
         \<and> (\<forall>session. map_of (sessions s) ws = Some session \<and> authenticated session \<longrightarrow>
               webSocketMessage W s ws (EndChat r) =
                 (s, [Send ws (ErrorMsg ''Cannot end chat: missing session data'')]))
         \<and> (\<forall>W' ev. \<not> jwtAuthenticates W' s ev \<longrightarrow>
               tokenPayload (fst (dispatch W' s ev)) = tokenPayload s)"
proof -
  have auth: "webSocketMessage W s ws (EndChat r) =
                (s, [Send ws (ErrorMsg ''Cannot end chat: missing session data'')])"
    if "map_of (sessions s) ws = Some session" and "authenticated session" for session
    using endChat_unbound [OF that assms] .
  have "\<exists>msg. webSocketMessage W s ws (EndChat r) = (s, [Send ws (ErrorMsg msg)])"
  proof (cases "map_of (sessions s) ws")
    case None
    then show ?thesis by (simp add: webSocketMessage_def)
  next
    case (Some session)
    show ?thesis
    proof (cases "authenticated session")
      case True
      with auth [OF Some] show ?thesis by simp
    next
      case False
      with Some show ?thesis by (simp add: webSocketMessage_def)
    qed
  qed
  with auth dispatch_tokenPayload show ?thesis by blast
qed
lemma devRoom_eq:
  "devRoom = \<lparr> sessions = [(7, \<lparr> userId = ''u7'', userType = Advisor, userName = ''Anonymous'',
                                   authenticated = True \<rparr>)],
               roomId = Some ''r1'', tokenPayload = None, messages = [],
               env = developmentEnv \<rparr>"
  by (simp add: devRoom_def devTimeline_def constructor_def restoreSessions_def dispatch_def
      fetch_def handleWebSocketUpgrade_def webSocketMessage_def handleAuth_def
      authenticate_def truthy_def orElse_def developmentEnv_def devWorld_def Let_def)

theorem end_chat_without_bound_context_witness:
  "\<not> contextBound devRoom
   \<and> map_of (sessions devRoom) 7 =
       Some \<lparr> userId = ''u7'', userType = Advisor, userName = ''Anonymous'',
              authenticated = True \<rparr>
   \<and> webSocketMessage devWorld devRoom 7 (EndChat (Some ''normal'')) =
       (devRoom, [Send 7 (ErrorMsg ''Cannot end chat: missing session data'')])"
proof -
  have h: "\<not> contextBound devRoom"
    by (simp add: devRoom_eq contextBound_def)
  have s: "map_of (sessions devRoom) 7 =
             Some \<lparr> userId = ''u7'', userType = Advisor, userName = ''Anonymous'',
                    authenticated = True \<rparr>"
    by (simp add: devRoom_eq)
  show ?thesis
    using h s end_chat_without_bound_context [OF h, of devWorld 7 "Some ''normal''"]
    by simp
qed

text \<open>
  C5. An authentication attempt fails in three ways: the token does not verify; the
  token verifies but its \<^verbatim>\<open>reading_id\<close> differs from the room id the actor holds; or the JWT
  branch is not taken (no token, or no secret) and the deployment is not a development one
  without a secret. Each time the actor's state, and with it the session, is left as it
  was, and the effects are exactly an \<^verbatim>\<open>auth_error\<close> frame to the connection followed by
  its close, with code 4003 for the room mismatch and 4001 for the other two: no presence
  frame is sent to anyone.
\<close>

theorem failed_authentication_closes_unchanged:
  assumes "map_of (sessions s) ws = Some session"
  shows "(truthy (token data) \<and> truthy (JWT_SECRET (env s))
            \<and> validateToken (jwtVerify W) (orElse (token data) [])
                 (orElse (JWT_SECRET (env s)) []) = None \<longrightarrow>
            webSocketMessage W s ws (Auth data) =
              (s, [Send ws (AuthErrorMsg ''Invalid or expired token''),
                   Close ws 4001 ''Unauthorized'']))
         \<and> (truthy (token data) \<and> truthy (JWT_SECRET (env s))
            \<and> validateToken (jwtVerify W) (orElse (token data) [])
                 (orElse (JWT_SECRET (env s)) []) = Some payload
            \<and> truthy (roomId s) \<and> Some (reading_id payload) \<noteq> roomId s \<longrightarrow>
            webSocketMessage W s ws (Auth data) =
              (s, [Send ws (AuthErrorMsg ''Token not valid for this room''),
                   Close ws 4003 ''Forbidden'']))
         \<and> (\<not> (truthy (token data) \<and> truthy (JWT_SECRET (env s)))
            \<and> \<not> (ENVIRONMENT (env s) = ''development'' \<and> \<not> truthy (JWT_SECRET (env s))) \<longrightarrow>
            webSocketMessage W s ws (Auth data) =
              (s, [Send ws (AuthErrorMsg ''Token required''), Close ws 4001 ''Unauthorized'']))"
proof -
  have run: "webSocketMessage W s ws (Auth data) = handleAuth W s ws session data"
    using assms by (simp add: webSocketMessage_def)
  show ?thesis
    unfolding run by (simp add: handleAuth_def)
qed

theorem failed_authentication_closes_unchanged_witness:
  "map_of (sessions roomR1) 3 = Some guest
   \<and> webSocketMessage world1 roomR1 3
        (Auth \<lparr> token = Some ''bad'', a_userId = None, a_userType = None, a_userName = None \<rparr>) =
       (roomR1, [Send 3 (AuthErrorMsg ''Invalid or expired token''),
                 Close 3 4001 ''Unauthorized''])
   \<and> webSocketMessage world1 roomR1 3
        (Auth \<lparr> token = Some ''r2'', a_userId = None, a_userType = None, a_userName = None \<rparr>) =
       (roomR1, [Send 3 (AuthErrorMsg ''Token not valid for this room''),
                 Close 3 4003 ''Forbidden''])
   \<and> webSocketMessage world1 roomR1 3
        (Auth \<lparr> token = None, a_userId = Some ''u3'', a_userType = None, a_userName = None \<rparr>) =
       (roomR1, [Send 3 (AuthErrorMsg ''Token required''), Close 3 4001 ''Unauthorized''])"
proof -
  let ?bad = "\<lparr> token = Some ''bad'', a_userId = None, a_userType = None, a_userName = None \<rparr>"
  let ?r2 = "\<lparr> token = Some ''r2'', a_userId = None, a_userType = None, a_userName = None \<rparr>"
  let ?none = "\<lparr> token = None, a_userId = Some ''u3'', a_userType = None, a_userName = None \<rparr>"
  let ?p2 = "\<lparr> sub = ''u2'', reading_id = ''r2'', user_type = Advisor, user_name = ''Bob'',
               client_id = ''c1'', advisor_id = ''a1'' \<rparr>"
  have h: "map_of (sessions roomR1) 3 = Some guest" by (simp add: roomR1_def)
  have env: "JWT_SECRET (env roomR1) = Some ''k''" "ENVIRONMENT (env roomR1) = ''production''"
    "roomId roomR1 = Some ''r1''"
    by (simp_all add: roomR1_def productionEnv_def)
  have v1: "validateToken (jwtVerify world1) ''bad'' ''k'' = None"
    by (simp add: validateToken_def world1_def)
  have v2: "validateToken (jwtVerify world1) ''r2'' ''k'' = Some ?p2"
    by (simp add: validateToken_def world1_def bobClaims_def)
  have a: "webSocketMessage world1 roomR1 3 (Auth ?bad) =
             (roomR1, [Send 3 (AuthErrorMsg ''Invalid or expired token''),
                       Close 3 4001 ''Unauthorized''])"
    using failed_authentication_closes_unchanged [OF h, of ?bad world1 ?p2] v1
    by (simp add: env truthy_def orElse_def)
  have b: "webSocketMessage world1 roomR1 3 (Auth ?r2) =
             (roomR1, [Send 3 (AuthErrorMsg ''Token not valid for this room''),
                       Close 3 4003 ''Forbidden''])"
    using failed_authentication_closes_unchanged [OF h, of ?r2 world1 ?p2] v2
    by (simp add: env truthy_def orElse_def)
  have c: "webSocketMessage world1 roomR1 3 (Auth ?none) =
             (roomR1, [Send 3 (AuthErrorMsg ''Token required''), Close 3 4001 ''Unauthorized''])"
    using failed_authentication_closes_unchanged [OF h, of ?none world1 ?p2]
    by (simp add: env truthy_def orElse_def)
  from h a b c show ?thesis by simp
qed

text \<open>
  C6. When an authenticated session of a bound room sends \<^verbatim>\<open>end_chat\<close> and the ledger call
  throws or rejects, the effects are the ledger call, the log line and one error frame to
  the initiating connection, and the actor's state is left as it was: no connection is
  closed, no timer is set, the registry keeps every session, nothing is broadcast. The
  room is still open: the same frame sent again, with the ledger answering, goes through
  to the \<^verbatim>\<open>chat_ended\<close> broadcast.
\<close>

theorem ledger_failure_keeps_room_open:
  assumes "map_of (sessions s) ws = Some session" and "authenticated session"
    and "tokenPayload s = Some tp" and "roomId s = Some rid" and "rid \<noteq> []"
    and "endReading W rid (userType session) (orElse r ''normal'') = None"
  shows "webSocketMessage W s ws (EndChat r) =
           (s, [EndReadingCall rid (userType session) (orElse r ''normal''),
                ConsoleError ''Failed to end chat:'',
                Send ws (ErrorMsg ''Failed to end chat. Please try again.'')])
         \<and> (\<forall>W' result. endReading W' rid (userType session) (orElse r ''normal'') = Some result \<longrightarrow>
               webSocketMessage W' (fst (webSocketMessage W s ws (EndChat r))) ws (EndChat r) =
                 (s, [EndReadingCall rid (userType session) (orElse r ''normal'')]
                     @ broadcast s (ChatEnded (userType session) (userName session)
                                      (orElse r ''normal'') (billing result) (now W')) None
                     @ [Send ws (EndChatSuccess result), SetTimeout 1000]))"
proof -
  have run: "webSocketMessage V s ws (EndChat r) = handleEndChat V s ws session r" for V
    using assms(1,2) by (simp add: webSocketMessage_def)
  have failed: "handleEndChat W s ws session r =
                  (s, [EndReadingCall rid (userType session) (orElse r ''normal''),
                       ConsoleError ''Failed to end chat:'',
                       Send ws (ErrorMsg ''Failed to end chat. Please try again.'')])"
    using assms(3-6) by (simp add: handleEndChat_def Let_def)
  have retry: "handleEndChat W' s ws session r =
                 (s, [EndReadingCall rid (userType session) (orElse r ''normal'')]
                     @ broadcast s (ChatEnded (userType session) (userName session)
                                      (orElse r ''normal'') (billing result) (now W')) None
                     @ [Send ws (EndChatSuccess result), SetTimeout 1000])"
    if "endReading W' rid (userType session) (orElse r ''normal'') = Some result" for W' result
    using assms(3-5) that by (simp add: handleEndChat_def Let_def)
  show ?thesis
    using retry by (simp add: run failed)
qed

theorem ledger_failure_keeps_room_open_witness:
  "map_of (sessions roomR1) 1 = Some alice \<and> authenticated alice
   \<and> tokenPayload roomR1 = Some aliceToken \<and> roomId roomR1 = Some ''r1''
   \<and> endReading world1 ''r1'' (userType alice) (orElse None ''normal'') = None
   \<and> webSocketMessage world1 roomR1 1 (EndChat None) =
       (roomR1, [EndReadingCall ''r1'' Client ''normal'', ConsoleError ''Failed to end chat:'',
                 Send 1 (ErrorMsg ''Failed to end chat. Please try again.'')])
   \<and> webSocketMessage world2 (fst (webSocketMessage world1 roomR1 1 (EndChat None))) 1
        (EndChat None) =
       (roomR1, [EndReadingCall ''r1'' Client ''normal'',
                 Send 1 (ChatEnded Client ''Alice'' ''normal'' None 1000),
                 Send 2 (ChatEnded Client ''Alice'' ''normal'' None 1000),
                 Send 1 (EndChatSuccess ledgerAnswer), SetTimeout 1000])"
proof -
  have h1: "map_of (sessions roomR1) 1 = Some alice" by (simp add: roomR1_def)
  have h2: "authenticated alice" by (simp add: alice_def)
  have h3: "tokenPayload roomR1 = Some aliceToken" by (simp add: roomR1_def)
  have h4: "roomId roomR1 = Some ''r1''" by (simp add: roomR1_def)
  have h5: "''r1'' \<noteq> []" by simp
  have h6: "endReading world1 ''r1'' (userType alice) (orElse None ''normal'') = None"
    by (simp add: world1_def)
  have w2: "endReading world2 ''r1'' (userType alice) (orElse None ''normal'') = Some ledgerAnswer"
    by (simp add: world2_def)
  have b: "broadcast roomR1 p None = [Send 1 p, Send 2 p]" for p
    by (simp add: broadcast_def roomR1_def alice_def bob_def guest_def)
  have v: "userType alice = Client" "userName alice = ''Alice''" "orElse None ''normal'' = ''normal''"
    "billing ledgerAnswer = None" "now world2 = 1000"
    by (simp_all add: alice_def orElse_def ledgerAnswer_def world2_def world1_def)
  note T = ledger_failure_keeps_room_open [OF h1 h2 h3 h4 h5 h6]
  from T have first: "webSocketMessage world1 roomR1 1 (EndChat None) =
      (roomR1, [EndReadingCall ''r1'' Client ''normal'', ConsoleError ''Failed to end chat:'',
                Send 1 (ErrorMsg ''Failed to end chat. Please try again.'')])"
    by (simp add: v)
  from T w2 have "webSocketMessage world2 (fst (webSocketMessage world1 roomR1 1 (EndChat None))) 1
        (EndChat None) =
       (roomR1, [EndReadingCall ''r1'' (userType alice) (orElse None ''normal'')]
                 @ broadcast roomR1 (ChatEnded (userType alice) (userName alice)
                     (orElse None ''normal'') (billing ledgerAnswer) (now world2)) None
                 @ [Send 1 (EndChatSuccess ledgerAnswer), SetTimeout 1000])"
    by blast
  then have second: "webSocketMessage world2 (fst (webSocketMessage world1 roomR1 1 (EndChat None))) 1
        (EndChat None) =
       (roomR1, [EndReadingCall ''r1'' Client ''normal'',
                 Send 1 (ChatEnded Client ''Alice'' ''normal'' None 1000),
                 Send 2 (ChatEnded Client ''Alice'' ''normal'' None 1000),
                 Send 1 (EndChatSuccess ledgerAnswer), SetTimeout 1000])"
    by (simp add: b v)
  from h1 h2 h3 h4 h6 first second show ?thesis by simp
qed

subsection \<open>Reading the log\<close>

lemma sorted_desc_take_drop:
  assumes "sorted_wrt (\<lambda>a b. f b \<le> (f a :: int)) xs"
    and "x \<in> set (take n xs)" and "y \<in> set (drop n xs)"
  shows "f y \<le> f x"
proof -
  have "sorted_wrt (\<lambda>a b. f b \<le> f a) (take n xs @ drop n xs)"
    using assms(1) by simp
  then show ?thesis
    using assms(2,3) unfolding sorted_wrt_append by blast
qed

lemma mset_minus_take: "mset xs - mset (take n xs) = mset (drop n xs)"
proof -
  have "mset xs = mset (take n xs) + mset (drop n xs)"
    by (metis append_take_drop_id mset_append)
  then show ?thesis by simp
qed

text \<open>
  C8. Let SQLite answer \<^verbatim>\<open>ORDER BY timestamp DESC\<close> with the stored rows in some order of
  descending timestamp. Then for every limit \<open>n\<close> and every log, \<^verbatim>\<open>getRecentMessages\<close>
  returns the first \<open>n\<close> rows of that order, reversed: \<open>n\<close> rows, or all of them when the
  log holds fewer; in ascending order of timestamp; all of them stored rows; and no row
  left out is newer than a row returned. The read has no effect, and the history
  endpoint answers with it and leaves the log and the registry as they were.
\<close>

theorem recent_messages_chronological:
  assumes "mset (orderByTimestampDesc W (messages s)) = mset (messages s)"
    and "sorted_wrt (\<lambda>a b. row_timestamp b \<le> row_timestamp a)
           (orderByTimestampDesc W (messages s))"
  shows "getRecentMessages W s n = rev (take n (orderByTimestampDesc W (messages s)))
         \<and> length (getRecentMessages W s n) = min n (length (messages s))
         \<and> sorted_wrt (\<lambda>a b. row_timestamp a \<le> row_timestamp b) (getRecentMessages W s n)
         \<and> mset (getRecentMessages W s n) \<subseteq># mset (messages s)
         \<and> (\<forall>old new. old \<in># mset (messages s) - mset (getRecentMessages W s n)
               \<and> new \<in> set (getRecentMessages W s n) \<longrightarrow>
               row_timestamp old \<le> row_timestamp new)
         \<and> (pathname request = ''/history'' \<longrightarrow>
               snd (fetch W s request)
                 = (HistoryJson (getRecentMessages W (fst (fetch W s request)) 100), [])
               \<and> messages (fst (fetch W s request)) = messages s
               \<and> sessions (fst (fetch W s request)) = sessions s)"
proof -
  let ?xs = "orderByTimestampDesc W (messages s)"
  have len: "length ?xs = length (messages s)"
    using assms(1) by (metis size_mset)
  have l: "length (getRecentMessages W s n) = min n (length (messages s))"
    by (simp add: getRecentMessages_def len min.commute)
  have "sorted_wrt (\<lambda>a b. row_timestamp b \<le> row_timestamp a) (take n ?xs)"
    using assms(2) by (rule sorted_wrt_take)
  then have asc: "sorted_wrt (\<lambda>a b. row_timestamp a \<le> row_timestamp b) (getRecentMessages W s n)"
    by (simp add: getRecentMessages_def sorted_wrt_rev)
  have "mset (take n ?xs) \<subseteq># mset ?xs"
    by (metis append_take_drop_id mset_append mset_subset_eq_add_left)
  then have sub: "mset (getRecentMessages W s n) \<subseteq># mset (messages s)"
    by (simp add: getRecentMessages_def assms(1))
  have rest: "mset (messages s) - mset (getRecentMessages W s n) = mset (drop n ?xs)"
    using mset_minus_take [of ?xs n] by (simp add: getRecentMessages_def assms(1))
  have newest: "row_timestamp old \<le> row_timestamp new"
    if "old \<in># mset (messages s) - mset (getRecentMessages W s n)"
      and "new \<in> set (getRecentMessages W s n)" for old new
  proof -
    from that(1) have o: "old \<in> set (drop n ?xs)" by (simp add: rest)
    from that(2) have n: "new \<in> set (take n ?xs)" by (simp add: getRecentMessages_def)
    from sorted_desc_take_drop [OF assms(2) n o] show ?thesis .
  qed
  have pure: "snd (fetch W s request)
                 = (HistoryJson (getRecentMessages W (fst (fetch W s request)) 100), [])
               \<and> messages (fst (fetch W s request)) = messages s
               \<and> sessions (fst (fetch W s request)) = sessions s"
    if "pathname request = ''/history''"
    using that by (simp add: fetch_def Let_def)
  from l asc sub newest pure show ?thesis
    by (simp add: getRecentMessages_def)
qed

theorem recent_messages_chronological_witness:
  "mset (orderByTimestampDesc world1 (messages roomWithLog)) = mset (messages roomWithLog)
   \<and> sorted_wrt (\<lambda>a b. row_timestamp b \<le> row_timestamp a)
        (orderByTimestampDesc world1 (messages roomWithLog))
   \<and> getRecentMessages world1 roomWithLog 2 = [row ''c'' 20, row ''a'' 30]
   \<and> getRecentMessages world1 roomWithLog 5 = [row ''b'' 10, row ''c'' 20, row ''a'' 30]
   \<and> length (getRecentMessages world1 roomWithLog 5) = min 5 (length (messages roomWithLog))
   \<and> sorted_wrt (\<lambda>a b. row_timestamp a \<le> row_timestamp b) (getRecentMessages world1 roomWithLog 2)
   \<and> snd (fetch world1 roomWithLog historyRequest)
       = (HistoryJson (getRecentMessages world1 (fst (fetch world1 roomWithLog historyRequest)) 100), [])
   \<and> messages (fst (fetch world1 roomWithLog historyRequest)) = messages roomWithLog
   \<and> sessions (fst (fetch world1 roomWithLog historyRequest)) = sessions roomWithLog"
proof -
  have p: "pathname historyRequest = ''/history''"
    by (simp add: historyRequest_def)
  have m: "messages roomWithLog = [row ''a'' 30, row ''b'' 10, row ''c'' 20]"
    by (simp add: roomWithLog_def)
  have o: "orderByTimestampDesc world1 [row ''a'' 30, row ''b'' 10, row ''c'' 20]
             = [row ''a'' 30, row ''c'' 20, row ''b'' 10]"
    by (simp add: world1_def row_def)
  have h1: "mset (orderByTimestampDesc world1 (messages roomWithLog)) = mset (messages roomWithLog)"
    by (simp add: m o)
  have h2: "sorted_wrt (\<lambda>a b. row_timestamp b \<le> row_timestamp a)
              (orderByTimestampDesc world1 (messages roomWithLog))"
    by (simp add: m o) (simp add: row_def)
  have t: "take 2 [row ''a'' 30, row ''c'' 20, row ''b'' 10] = [row ''a'' 30, row ''c'' 20]"
    by simp
  show ?thesis
    using h1 h2 p recent_messages_chronological [OF h1 h2, of 2 historyRequest]
      recent_messages_chronological [OF h1 h2, of 5 historyRequest]
    by (simp add: m o t)
qed

subsection \<open>A successful authentication\<close>

lemma participantsOf_member:
  "(w, session) \<in> set xs \<Longrightarrow> authenticated session \<Longrightarrow>
   \<lparr> p_userId = userId session, p_userType = userType session, p_userName = userName session \<rparr>
     \<in> set (participantsOf xs)"
  by (induction xs rule: participantsOf.induct) auto

lemma session_rebound:
  "session\<lparr> userId := uid, userType := utype, userName := uname, authenticated := True \<rparr>
     = \<lparr> userId = uid, userType = utype, userName = uname, authenticated = True \<rparr>"
  by (cases session) simp

lemma authenticate_AuthSuccess:
  assumes "authenticate W s0 ws session uid utype uname = (s', fx)"
    and "Send ws (AuthSuccess u ps) \<in> set fx"
  shows "u = uid \<and> ps = participantsOf (sessions s')
         \<and> sessions s' = AList.update ws \<lparr> userId = uid, userType = utype, userName = uname,
                                            authenticated = True \<rparr> (sessions s0)"
proof -
  have "Send ws (AuthSuccess u ps) \<notin> set (broadcastTo xs p (Some ws))" for xs p
    by (simp add: Send_in_broadcastTo)
  with assms show ?thesis
    by (auto simp: authenticate_def Let_def broadcast_def getParticipantList_def session_rebound)
qed

lemma auth_success:
  assumes "webSocketMessage W s ws (Auth data) = (s', fx)"
    and "Send ws (AuthSuccess u ps) \<in> set fx"
  shows "\<exists>t n. sessions s' = AList.update ws \<lparr> userId = u, userType = t, userName = n,
                                               authenticated = True \<rparr> (sessions s)
               \<and> ps = participantsOf (sessions s')"
proof (cases "map_of (sessions s) ws")
  case None
  with assms show ?thesis by (auto simp: webSocketMessage_def)
next
  case (Some session)
  with assms(1) have h: "handleAuth W s ws session data = (s', fx)"
    by (simp add: webSocketMessage_def)
  show ?thesis
  proof (cases "truthy (token data) \<and> truthy (JWT_SECRET (env s))")
    case True
    show ?thesis
    proof (cases "validateToken (jwtVerify W) (orElse (token data) []) (orElse (JWT_SECRET (env s)) [])")
      case None
      with True h assms(2) show ?thesis by (auto simp: handleAuth_def)
    next
      case (Some payload)
      show ?thesis
      proof (cases "truthy (roomId s) \<and> Some (reading_id payload) \<noteq> roomId s")
        case True
        with \<open>truthy (token data) \<and> truthy (JWT_SECRET (env s))\<close> Some h assms(2)
        show ?thesis by (auto simp: handleAuth_def)
      next
        case False
        with \<open>truthy (token data) \<and> truthy (JWT_SECRET (env s))\<close> Some h
        have "authenticate W (s\<lparr> tokenPayload := Some payload \<rparr>) ws session
                (sub payload) (user_type payload) (user_name payload) = (s', fx)"
          by (simp add: handleAuth_def)
        from authenticate_AuthSuccess [OF this assms(2)] show ?thesis by auto
      qed
    qed
  next
    case False
    show ?thesis
    proof (cases "ENVIRONMENT (env s) = ''development'' \<and> \<not> truthy (JWT_SECRET (env s))")
      case True
      with False h
      have "authenticate W s ws session (orElse (a_userId data) (randomUUID W))
              (if a_userType data = Some ''advisor'' then Advisor else Client)
              (orElse (a_userName data) ''Anonymous'') = (s', fx)"
        by (simp add: handleAuth_def)
      from authenticate_AuthSuccess [OF this assms(2)] show ?thesis by auto
    next
      case no: False
      with False h assms(2) show ?thesis by (auto simp: handleAuth_def)
    qed
  qed
qed

text \<open>
  C9. Two \<^verbatim>\<open>auth\<close> frames handled one after the other, on two different connections of
  the same actor, both answered with \<^verbatim>\<open>auth_success\<close>: the participant list in the second
  answer holds the identity bound by the first authentication and the identity bound by
  the second, and both sessions are authenticated in the registry.
\<close>

theorem second_auth_lists_both_participants:
  assumes "ws1 \<noteq> ws2"
    and "webSocketMessage W1 s ws1 (Auth data1) = (s1, fx1)"
    and "Send ws1 (AuthSuccess u1 ps1) \<in> set fx1"
    and "webSocketMessage W2 s1 ws2 (Auth data2) = (s2, fx2)"
    and "Send ws2 (AuthSuccess u2 ps2) \<in> set fx2"
  shows "\<exists>t1 n1 t2 n2.
           \<lparr> p_userId = u1, p_userType = t1, p_userName = n1 \<rparr> \<in> set ps2
           \<and> \<lparr> p_userId = u2, p_userType = t2, p_userName = n2 \<rparr> \<in> set ps2
           \<and> map_of (sessions s2) ws1 =
               Some \<lparr> userId = u1, userType = t1, userName = n1, authenticated = True \<rparr>
           \<and> map_of (sessions s2) ws2 =
               Some \<lparr> userId = u2, userType = t2, userName = n2, authenticated = True \<rparr>
           \<and> ps2 = getParticipantList s2"
proof -
  from auth_success [OF assms(2,3)] obtain t1 n1 where
    s1: "sessions s1 = AList.update ws1 \<lparr> userId = u1, userType = t1, userName = n1,
                                          authenticated = True \<rparr> (sessions s)"
    by blast
  from auth_success [OF assms(4,5)] obtain t2 n2 where
    s2: "sessions s2 = AList.update ws2 \<lparr> userId = u2, userType = t2, userName = n2,
                                          authenticated = True \<rparr> (sessions s1)"
    and ps2: "ps2 = participantsOf (sessions s2)"
    by blast
  let ?a = "\<lparr> userId = u1, userType = t1, userName = n1, authenticated = True \<rparr>"
  let ?b = "\<lparr> userId = u2, userType = t2, userName = n2, authenticated = True \<rparr>"
  have "(ws1, ?a) \<in> set (sessions s1)"
    unfolding s1 by (rule in_update_same)
  then have a: "(ws1, ?a) \<in> set (sessions s2)"
    unfolding s2 using assms(1) by (rule other_in_update)
  have b: "(ws2, ?b) \<in> set (sessions s2)"
    unfolding s2 by (rule in_update_same)
  have pa: "\<lparr> p_userId = u1, p_userType = t1, p_userName = n1 \<rparr> \<in> set ps2"
    using participantsOf_member [OF a] by (simp add: ps2)
  have pb: "\<lparr> p_userId = u2, p_userType = t2, p_userName = n2 \<rparr> \<in> set ps2"
    using participantsOf_member [OF b] by (simp add: ps2)
  have ma: "map_of (sessions s2) ws1 = Some ?a"
    using assms(1) by (simp add: s2 s1 update_conv')
  have mb: "map_of (sessions s2) ws2 = Some ?b"
    by (simp add: s2 update_conv')
  from pa pb ma mb ps2 show ?thesis
    unfolding getParticipantList_def by blast
qed

theorem second_auth_lists_both_participants_witness:
  "(1 :: WebSocket) \<noteq> 2
   \<and> Send 1 (AuthSuccess ''u1'' [\<lparr> p_userId = ''u1'', p_userType = Client, p_userName = ''Alice'' \<rparr>])
       \<in> set (snd (webSocketMessage world3 lobby 1 (authWith ''A'')))
   \<and> snd (webSocketMessage world3 (fst (webSocketMessage world3 lobby 1 (authWith ''A''))) 2
            (authWith ''B'')) =
       [SerializeAttachment 2 bob,
        Send 2 (AuthSuccess ''u2''
                 [\<lparr> p_userId = ''u1'', p_userType = Client, p_userName = ''Alice'' \<rparr>,
                  \<lparr> p_userId = ''u2'', p_userType = Advisor, p_userName = ''Bob'' \<rparr>]),
        Send 2 (HistoryMsg []),
        Send 1 (PresenceMsg ''u2'' Advisor ''Bob'' Online)]
   \<and> (\<exists>t1 n1 t2 n2.
         \<lparr> p_userId = ''u1'', p_userType = t1, p_userName = n1 \<rparr>
           \<in> set [\<lparr> p_userId = ''u1'', p_userType = Client, p_userName = ''Alice'' \<rparr>,
                   \<lparr> p_userId = ''u2'', p_userType = Advisor, p_userName = ''Bob'' \<rparr>]
         \<and> \<lparr> p_userId = ''u2'', p_userType = t2, p_userName = n2 \<rparr>
           \<in> set [\<lparr> p_userId = ''u1'', p_userType = Client, p_userName = ''Alice'' \<rparr>,
                   \<lparr> p_userId = ''u2'', p_userType = Advisor, p_userName = ''Bob'' \<rparr>])"
proof -
  let ?pa = "\<lparr> p_userId = ''u1'', p_userType = Client, p_userName = ''Alice'' \<rparr>"
  let ?pb = "\<lparr> p_userId = ''u2'', p_userType = Advisor, p_userName = ''Bob'' \<rparr>"
  let ?s1 = "lobby\<lparr> tokenPayload := Some aliceToken, sessions := [(1, alice), (2, guest)] \<rparr>"
  let ?fx2 = "[SerializeAttachment 2 bob, Send 2 (AuthSuccess ''u2'' [?pa, ?pb]),
               Send 2 (HistoryMsg []), Send 1 (PresenceMsg ''u2'' Advisor ''Bob'' Online)]"
  have va: "validateToken (jwtVerify world3) ''A'' ''k'' = Some aliceToken"
    by (simp add: validateToken_def world3_def aliceClaims_def aliceToken_def)
  have vb: "validateToken (jwtVerify world3) ''B'' ''k'' =
              Some \<lparr> sub = ''u2'', reading_id = ''r1'', user_type = Advisor, user_name = ''Bob'',
                     client_id = ''c1'', advisor_id = ''a1'' \<rparr>"
    by (simp add: validateToken_def world3_def bobClaims_def)
  have o: "orderByTimestampDesc world3 [] = []"
    by (simp add: world3_def world1_def)
  have first: "webSocketMessage world3 lobby 1 (authWith ''A'') =
                 (?s1, [SerializeAttachment 1 alice, Send 1 (AuthSuccess ''u1'' [?pa]),
                        Send 1 (HistoryMsg [])])"
    by (simp add: webSocketMessage_def authWith_def handleAuth_def lobby_def productionEnv_def
        truthy_def orElse_def va authenticate_def Let_def aliceToken_def guest_def alice_def
        getParticipantList_def getRecentMessages_def o broadcast_def)
  have second: "webSocketMessage world3 ?s1 2 (authWith ''B'') =
                  (?s1\<lparr> tokenPayload := Some \<lparr> sub = ''u2'', reading_id = ''r1'',
                           user_type = Advisor, user_name = ''Bob'', client_id = ''c1'',
                           advisor_id = ''a1'' \<rparr>,
                        sessions := [(1, alice), (2, bob)] \<rparr>, ?fx2)"
    by (simp add: webSocketMessage_def authWith_def handleAuth_def lobby_def productionEnv_def
        truthy_def orElse_def vb authenticate_def Let_def guest_def alice_def bob_def
        getParticipantList_def getRecentMessages_def o broadcast_def)
  have h1: "(1 :: WebSocket) \<noteq> 2" by simp
  have h3: "Send 1 (AuthSuccess ''u1'' [?pa])
              \<in> set [SerializeAttachment 1 alice, Send 1 (AuthSuccess ''u1'' [?pa]),
                      Send 1 (HistoryMsg [])]"
    by simp
  have h5: "Send 2 (AuthSuccess ''u2'' [?pa, ?pb]) \<in> set ?fx2" by simp
  from second_auth_lists_both_participants
         [OF h1 first [unfolded authWith_def] h3 second [unfolded authWith_def] h5]
  have "\<exists>t1 n1 t2 n2.
          \<lparr> p_userId = ''u1'', p_userType = t1, p_userName = n1 \<rparr> \<in> set [?pa, ?pb]
          \<and> \<lparr> p_userId = ''u2'', p_userType = t2, p_userName = n2 \<rparr> \<in> set [?pa, ?pb]"
    by blast
  with h1 h3 show ?thesis
    by (simp only: first second fst_conv snd_conv) simp
qed

subsection \<open>Restart\<close>

lemma restoreSessions_aux:
  "distinct (map fst sockets) \<Longrightarrow>
   map_of (fold (\<lambda>(ws, attachment) m. case attachment of None \<Rightarrow> m
                   | Some a \<Rightarrow> AList.update ws a m) sockets m) ws
     = (case map_of sockets ws of Some (Some a) \<Rightarrow> Some a | _ \<Rightarrow> map_of m ws)"
proof (induction sockets arbitrary: m)
  case Nil
  show ?case by simp
next
  case (Cons x sockets)
  obtain k att where x: "x = (k, att)" by (cases x)
  from Cons.prems have d: "distinct (map fst sockets)" and k: "k \<notin> fst ` set sockets"
    by (simp_all add: x)
  from k have none: "map_of sockets k = None"
    by (simp add: map_of_eq_None_iff)
  show ?case
    using Cons.IH [OF d] none
    by (cases att) (auto simp: x update_conv' split: option.splits)
qed

lemma restoreSessions_verbatim:
  assumes "distinct (map fst sockets)" and "(ws, Some a) \<in> set sockets"
  shows "map_of (restoreSessions sockets) ws = Some a"
proof -
  from assms have "map_of sockets ws = Some (Some a)" by simp
  then show ?thesis
    using restoreSessions_aux [OF assms(1), of "[]" ws] by (simp add: restoreSessions_def)
qed

lemma jwtAuthenticates_sets_tokenPayload:
  assumes "jwtAuthenticates W s ev"
  shows "tokenPayload (fst (dispatch W s ev)) \<noteq> None"
proof -
  from assms obtain ws data where ev: "ev = MessageEv ws (Auth data)"
    by (cases "(W, s, ev)" rule: jwtAuthenticates.cases) auto
  from assms ev obtain session where s: "map_of (sessions s) ws = Some session"
    by auto
  from assms show ?thesis
    by (auto simp: ev s dispatch_def webSocketMessage_def handleAuth_def
        authenticate_tokenPayload split: option.splits)
qed

lemma SerializeAttachment_notin_broadcastTo:
  "SerializeAttachment w a \<notin> set (broadcastTo xs p ex)"
  using broadcastTo_only_Send [of "SerializeAttachment w a" xs p ex] by auto

lemma authenticate_snapshot:
  "SerializeAttachment w a \<in> set (snd (authenticate W s ws session uid utype uname)) \<Longrightarrow>
   map_of (sessions (fst (authenticate W s ws session uid utype uname))) w = Some a"
  by (auto simp: authenticate_def Let_def broadcast_def SerializeAttachment_notin_broadcastTo
      update_conv')

lemma handleAuth_snapshot:
  "SerializeAttachment w a \<in> set (snd (handleAuth W s ws session data)) \<Longrightarrow>
   map_of (sessions (fst (handleAuth W s ws session data))) w = Some a"
  by (auto simp: handleAuth_def authenticate_snapshot split: option.splits if_splits)

lemma handleChatMessage_snapshot:
  "handleChatMessage W s ws session content = Inr (s', fx) \<Longrightarrow>
   SerializeAttachment w a \<notin> set fx"
  by (auto simp: handleChatMessage_def Let_def broadcast_def syncMessageToPhp_def
      SerializeAttachment_notin_broadcastTo split: option.splits if_splits sum.splits)

lemma handleEndChat_snapshot:
  "SerializeAttachment w a \<notin> set (snd (handleEndChat W s ws session reason))"
  by (auto simp: handleEndChat_def Let_def broadcast_def SerializeAttachment_notin_broadcastTo
      split: option.splits if_splits)

lemma webSocketMessage_snapshot:
  assumes "SerializeAttachment w a \<in> set (snd (webSocketMessage W s ws frame))"
  shows "map_of (sessions (fst (webSocketMessage W s ws frame))) w = Some a"
proof (cases "map_of (sessions s) ws")
  case None
  with assms show ?thesis
    by (auto simp: webSocketMessage_def invalidMessageFormat_def split: if_splits)
next
  case (Some session)
  show ?thesis
  proof (cases frame)
    case (Message content)
    show ?thesis
    proof (cases "handleChatMessage W s ws session content")
      case (Inl e)
      with Message Some assms show ?thesis
        by (auto simp: webSocketMessage_def invalidMessageFormat_def split: if_splits)
    next
      case (Inr r)
      obtain s' fx where r: "r = (s', fx)" by (cases r)
      from Inr r have "SerializeAttachment w a \<notin> set fx"
        using handleChatMessage_snapshot by simp
      with Message Some Inr r assms show ?thesis
        by (auto simp: webSocketMessage_def split: if_splits)
    qed
  next
    case (Auth data)
    with Some assms show ?thesis
      by (simp add: webSocketMessage_def handleAuth_snapshot)
  next
    case (EndChat reason)
    with Some assms handleEndChat_snapshot [of w a W s ws session reason] show ?thesis
      by (auto simp: webSocketMessage_def split: if_splits)
  next
    case (Typing isTyping)
    with Some assms show ?thesis
      by (auto simp: webSocketMessage_def handleTypingIndicator_def broadcast_def
          SerializeAttachment_notin_broadcastTo split: if_splits)
  qed (use Some assms in \<open>auto simp: webSocketMessage_def invalidMessageFormat_def\<close>)
qed

lemma dispatch_snapshot:
  assumes "SerializeAttachment w a \<in> set (snd (dispatch W s ev))"
  shows "map_of (sessions (fst (dispatch W s ev))) w = Some a"
proof (cases ev)
  case (FetchEv request)
  with assms show ?thesis
    by (auto simp: dispatch_def fetch_def handleWebSocketUpgrade_def Let_def update_conv'
        split: prod.splits if_splits)
next
  case (MessageEv ws frame)
  with assms show ?thesis by (simp add: dispatch_def webSocketMessage_snapshot)
next
  case (CloseEv ws)
  with assms show ?thesis
    by (auto simp: dispatch_def webSocketClose_def broadcast_def
        SerializeAttachment_notin_broadcastTo split: option.splits if_splits)
next
  case (ErrorEv ws)
  with assms show ?thesis by (auto simp: dispatch_def webSocketError_def)
next
  case TimeoutEv
  with assms show ?thesis by (auto simp: dispatch_def endChatTimeout_def)
qed
text \<open>
  C10. What the actor persists per connection is a \<^verbatim>\<open>SessionData\<close>, the registry entry of
  that socket, and nothing else. The constructor, run after a restart, puts the snapshots
  back as they are, authenticated flag included, and starts with no token payload and no
  room id. From there, along every timeline in which no JWT authentication succeeds, the
  token payload stays absent (a successful one stores it). In such a state an \<^verbatim>\<open>end_chat\<close>
  from an authenticated session is answered with the error "Cannot end chat: missing
  session data" and nothing else, and a message accepted from an authenticated session
  is written to the log and broadcast, and no ledger sync request is issued.
\<close>

theorem restart_loses_token_payload:
  assumes "noJwtAuthentication (constructor e sockets stored) evs"
    and "s = fst (run (constructor e sockets stored) evs)"
  shows "tokenPayload (constructor e sockets stored) = None
         \<and> roomId (constructor e sockets stored) = None
         \<and> messages (constructor e sockets stored) = stored
         \<and> (\<forall>ws a. distinct (map fst sockets) \<and> (ws, Some a) \<in> set sockets \<longrightarrow>
               map_of (sessions (constructor e sockets stored)) ws = Some a)
         \<and> (\<forall>W' s' ev w a. SerializeAttachment w a \<in> set (snd (dispatch W' s' ev)) \<longrightarrow>
               map_of (sessions (fst (dispatch W' s' ev))) w = Some a)
         \<and> tokenPayload s = None
         \<and> (\<forall>W' ev. jwtAuthenticates W' s ev \<longrightarrow> tokenPayload (fst (dispatch W' s ev)) \<noteq> None)
         \<and> (\<forall>W ws session r. map_of (sessions s) ws = Some session \<and> authenticated session \<longrightarrow>
               webSocketMessage W s ws (EndChat r) =
                 (s, [Send ws (ErrorMsg ''Cannot end chat: missing session data'')]))
         \<and> (\<forall>W ws session c.
               map_of (sessions s) ws = Some session \<and> authenticated session
               \<and> c \<noteq> [] \<and> trim c \<noteq> [] \<and> randomUUID W \<notin> set (map row_id (messages s)) \<longrightarrow>
               webSocketMessage W s ws (Message (Some c)) =
                 (s\<lparr> messages := messages s @ [toRow (newChatMessage W session c)] \<rparr>,
                  SqlInsert (toRow (newChatMessage W session c))
                    # broadcast s (MessageMsg (newChatMessage W session c)) None))"
proof -
  have fresh: "tokenPayload (constructor e sockets stored) = None"
    "roomId (constructor e sockets stored) = None"
    "messages (constructor e sockets stored) = stored"
    by (simp_all add: constructor_def)
  have restored: "map_of (sessions (constructor e sockets stored)) ws = Some a"
    if "distinct (map fst sockets)" and "(ws, Some a) \<in> set sockets" for ws a
    using restoreSessions_verbatim [OF that] by (simp add: constructor_def)
  have none: "tokenPayload s = None"
    using run_tokenPayload [OF assms(1)] by (simp add: assms(2) fresh)
  then have unbound: "\<not> contextBound s"
    by (simp add: contextBound_def)
  have endchat: "webSocketMessage W s ws (EndChat r) =
                   (s, [Send ws (ErrorMsg ''Cannot end chat: missing session data'')])"
    if "map_of (sessions s) ws = Some session" and "authenticated session" for W ws session r
    using endChat_unbound [OF that unbound] .
  have msg: "webSocketMessage W s ws (Message (Some c)) =
               (s\<lparr> messages := messages s @ [toRow (newChatMessage W session c)] \<rparr>,
                SqlInsert (toRow (newChatMessage W session c))
                  # broadcast s (MessageMsg (newChatMessage W session c)) None)"
    if "map_of (sessions s) ws = Some session" and "authenticated session"
      and "c \<noteq> []" and "trim c \<noteq> []" and "randomUUID W \<notin> set (map row_id (messages s))"
    for W ws session c
    using accept_message [OF that] unbound by (simp add: broadcast_def)
  show ?thesis
    using fresh restored dispatch_snapshot none jwtAuthenticates_sets_tokenPayload endchat msg
    by blast
qed

lemma restartedRoom_eq:
  "restartedRoom = \<lparr> sessions = [(1, alice), (2, bob), (4, guest)], roomId = Some ''r1'',
                     tokenPayload = None, messages = [], env = productionEnv \<rparr>"
proof -
  have v: "validateToken (jwtVerify world1) ''bad'' ''k'' = None"
    by (simp add: validateToken_def world1_def)
  have n: "newServerSocket world1 = 4"
    by (simp add: world1_def)
  show ?thesis
    by (simp add: restartedRoom_def restartTimeline_def heldSockets_def constructor_def
        restoreSessions_def dispatch_def fetch_def handleWebSocketUpgrade_def
        webSocketMessage_def authWith_def handleAuth_def truthy_def orElse_def v
        productionEnv_def Let_def guest_def n)
qed

theorem restart_loses_token_payload_witness:
  "noJwtAuthentication (constructor productionEnv heldSockets []) restartTimeline
   \<and> distinct (map fst heldSockets) \<and> (1, Some alice) \<in> set heldSockets
   \<and> map_of (sessions (constructor productionEnv heldSockets [])) 1 = Some alice
   \<and> map_of (sessions restartedRoom) 1 = Some alice \<and> authenticated alice
   \<and> trim ''hi'' \<noteq> [] \<and> randomUUID world2 \<notin> set (map row_id (messages restartedRoom))
   \<and> tokenPayload restartedRoom = None
   \<and> roomId restartedRoom = Some ''r1''
   \<and> webSocketMessage world2 restartedRoom 1 (EndChat None) =
       (restartedRoom, [Send 1 (ErrorMsg ''Cannot end chat: missing session data'')])
   \<and> webSocketMessage world2 restartedRoom 1 (Message (Some ''hi'')) =
       (restartedRoom\<lparr> messages := [toRow (newChatMessage world2 alice ''hi'')] \<rparr>,
        [SqlInsert (toRow (newChatMessage world2 alice ''hi'')),
         Send 1 (MessageMsg (newChatMessage world2 alice ''hi'')),
         Send 2 (MessageMsg (newChatMessage world2 alice ''hi''))])"
proof -
  have v: "validateToken (jwtVerify world1) ''bad'' ''k'' = None"
    by (simp add: validateToken_def world1_def)
  have n: "newServerSocket world1 = 4"
    by (simp add: world1_def)
  have h1: "noJwtAuthentication (constructor productionEnv heldSockets []) restartTimeline"
    by (simp add: restartTimeline_def heldSockets_def constructor_def
        restoreSessions_def dispatch_def fetch_def handleWebSocketUpgrade_def
        authWith_def truthy_def orElse_def v productionEnv_def Let_def n)
  have h2: "restartedRoom = fst (run (constructor productionEnv heldSockets []) restartTimeline)"
    by (simp add: restartedRoom_def)
  have a: "map_of (sessions restartedRoom) 1 = Some alice" by (simp add: restartedRoom_eq)
  have b: "authenticated alice" by (simp add: alice_def)
  have c: "''hi'' \<noteq> []" by simp
  have d: "trim ''hi'' \<noteq> []" by (simp add: trim_def isWhiteSpace_def)
  have f: "randomUUID world2 \<notin> set (map row_id (messages restartedRoom))"
    by (simp add: restartedRoom_eq)
  have r: "roomId restartedRoom = Some ''r1''" by (simp add: restartedRoom_eq)
  have bc: "broadcast restartedRoom p None = [Send 1 p, Send 2 p]" for p
    by (simp add: broadcast_def restartedRoom_eq alice_def bob_def guest_def)
  have ms: "messages restartedRoom = []" by (simp add: restartedRoom_eq)
  have k: "distinct (map fst heldSockets)" "(1, Some alice) \<in> set heldSockets"
    by (simp_all add: heldSockets_def)
  note T = restart_loses_token_payload [OF h1 h2]
  from T k have snap: "map_of (sessions (constructor productionEnv heldSockets [])) 1 = Some alice"
    by blast
  from T have t: "tokenPayload restartedRoom = None" by blast
  from T a b have ec: "webSocketMessage world2 restartedRoom 1 (EndChat None) =
       (restartedRoom, [Send 1 (ErrorMsg ''Cannot end chat: missing session data'')])"
    by blast
  from T a b c d f have "webSocketMessage world2 restartedRoom 1 (Message (Some ''hi'')) =
       (restartedRoom\<lparr> messages := messages restartedRoom @ [toRow (newChatMessage world2 alice ''hi'')] \<rparr>,
        SqlInsert (toRow (newChatMessage world2 alice ''hi''))
          # broadcast restartedRoom (MessageMsg (newChatMessage world2 alice ''hi'')) None)"
    by blast
  then have m: "webSocketMessage world2 restartedRoom 1 (Message (Some ''hi'')) =
       (restartedRoom\<lparr> messages := [toRow (newChatMessage world2 alice ''hi'')] \<rparr>,
        [SqlInsert (toRow (newChatMessage world2 alice ''hi'')),
         Send 1 (MessageMsg (newChatMessage world2 alice ''hi'')),
         Send 2 (MessageMsg (newChatMessage world2 alice ''hi''))])"
    by (simp add: bc ms)
  from h1 k snap a b d f t r ec m show ?thesis by blast
qed

end
